theory Spec2Isabelle
  imports Main
begin

section \<open>JavaScript values\<close>

text \<open>
  The error middleware receives \<open>err: any\<close>, so the failure is modelled as an untyped
  JavaScript value. Values are data: there are no function values and no symbols.
  \<open>JNum n\<close> is the Number with the integer value \<open>n\<close> (status codes, driver
  codes); an integer that no Number holds exactly stands for the nearest Number, as a
  numeric literal does. Strings are lists of code units, and an object is the list of the
  properties a lookup can reach, each tagged with where it lives:
  \<^item> \<open>OwnEnumerable\<close>: an ordinary field of the object (what \<open>Object.keys\<close>,
    \<open>Object.values\<close> and the spread \<open>{...o}\<close> see), in enumeration order;
  \<^item> \<open>OwnHidden\<close>: an own, non-enumerable property (the \<open>message\<close> and
    \<open>stack\<close> of an \<open>Error\<close> instance);
  \<^item> \<open>Inherited\<close>: a property found on the prototype chain (the \<open>name\<close> of an
    \<open>Error\<close> instance, which lives on \<open>Error.prototype\<close>).
  A lookup returns the first entry with the key. Properties are plain writable data
  properties. What every object inherits from \<open>Object.prototype\<close> (its
  \<open>toString\<close>, its \<open>valueOf\<close>) is not listed: it is there unless an entry
  shadows it.
\<close>

datatype prop_kind = OwnEnumerable | OwnHidden | Inherited

datatype jsval =
    JUndefined
  | JNull
  | JBool bool
  | JNum int
  | JStr string
  | JObj "(string \<times> prop_kind \<times> jsval) list"

type_synonym js_object = "(string \<times> prop_kind \<times> jsval) list"

datatype js_exception = TypeError

text \<open>Truthiness, as used by \<open>a || b\<close> and \<open>if (a)\<close>.\<close>

fun js_truthy :: "jsval \<Rightarrow> bool" where
  "js_truthy JUndefined = False"
| "js_truthy JNull = False"
| "js_truthy (JBool b) = b"
| "js_truthy (JNum n) = (n \<noteq> 0)"
| "js_truthy (JStr s) = (s \<noteq> [])"
| "js_truthy (JObj ps) = True"

definition js_or :: "jsval \<Rightarrow> jsval \<Rightarrow> jsval" where
  "js_or a b = (if js_truthy a then a else b)"

text \<open>Property read \<open>o.k\<close> on an object: the value of the first entry, else undefined.\<close>

definition obj_get :: "js_object \<Rightarrow> string \<Rightarrow> jsval" where
  "obj_get ps k = (case map_of ps k of Some (kd, v) \<Rightarrow> v | None \<Rightarrow> JUndefined)"

text \<open>
  Property write \<open>o.k = v\<close>: an own property keeps its place and its enumerability; a
  missing or inherited one becomes a new own enumerable property at the end.
\<close>

fun put_value :: "js_object \<Rightarrow> string \<Rightarrow> jsval \<Rightarrow> js_object" where
  "put_value [] k v = []"
| "put_value ((k', kd, v') # ps) k v =
     (if k' = k then (k', kd, v) # ps else (k', kd, v') # put_value ps k v)"

definition obj_set :: "js_object \<Rightarrow> string \<Rightarrow> jsval \<Rightarrow> js_object" where
  "obj_set ps k v =
     (case map_of ps k of
        None \<Rightarrow> ps @ [(k, OwnEnumerable, v)]
      | Some (Inherited, old) \<Rightarrow> filter (\<lambda>p. fst p \<noteq> k) ps @ [(k, OwnEnumerable, v)]
      | Some (kd, old) \<Rightarrow> put_value ps k v)"

text \<open>The spread \<open>{ ...o }\<close>: a fresh plain object with the own enumerable properties.\<close>

definition spread :: "js_object \<Rightarrow> js_object" where
  "spread ps = filter (\<lambda>p. fst (snd p) = OwnEnumerable) ps"

text \<open>\<open>Object.keys\<close>, \<open>Object.values\<close> and a computed read \<open>v[k]\<close> on any value.\<close>

definition digit_char :: "nat \<Rightarrow> char" where
  "digit_char d = ''0123456789'' ! d"

fun decimal :: "nat \<Rightarrow> string" where
  "decimal n =
     (if n < 10 then [digit_char n] else decimal (n div 10) @ [digit_char (n mod 10)])"

fun js_keys :: "jsval \<Rightarrow> js_exception + string list" where
  "js_keys JUndefined = Inl TypeError"
| "js_keys JNull = Inl TypeError"
| "js_keys (JBool b) = Inr []"
| "js_keys (JNum n) = Inr []"
| "js_keys (JStr s) = Inr (map decimal [0..<length s])"
| "js_keys (JObj ps) = Inr (map fst (spread ps))"

fun js_values :: "jsval \<Rightarrow> js_exception + jsval list" where
  "js_values JUndefined = Inl TypeError"
| "js_values JNull = Inl TypeError"
| "js_values (JBool b) = Inr []"
| "js_values (JNum n) = Inr []"
| "js_values (JStr s) = Inr (map (\<lambda>c. JStr [c]) s)"
| "js_values (JObj ps) = Inr (map (\<lambda>p. snd (snd p)) (spread ps))"

fun js_get :: "jsval \<Rightarrow> string \<Rightarrow> js_exception + jsval" where
  "js_get JUndefined k = Inl TypeError"
| "js_get JNull k = Inl TypeError"
| "js_get (JBool b) k = Inr JUndefined"
| "js_get (JNum n) k = Inr JUndefined"
| "js_get (JStr s) k =
     Inr (if k = ''length'' then JNum (int (length s))
          else (case find (\<lambda>i. decimal i = k) [0..<length s] of
                  Some i \<Rightarrow> JStr [s ! i]
                | None \<Rightarrow> JUndefined))"
| "js_get (JObj ps) k = Inr (obj_get ps k)"

text \<open>
  \<open>Number::toString\<close> on an integer. Below \<open>2^53\<close> every integer is a Number and
  prints as itself. Above, the integer is first rounded to the nearest Number (53
  significant bits, ties to even; \<open>Infinity\<close> from \<open>2^1024\<close> on); the digits printed
  are those of the integer with the fewest significant digits that still rounds to the
  same Number, the closest one if there are two; up to 21 digits are printed in full,
  longer ones in exponent form.
\<close>

fun bit_length :: "nat \<Rightarrow> nat" where
  "bit_length n = (if n = 0 then 0 else Suc (bit_length (n div 2)))"

definition to_double :: "nat \<Rightarrow> nat" where
  "to_double v =
     (if bit_length v \<le> 53 then v
      else (let ulp = 2 ^ (bit_length v - 53); q = v div ulp; r = v mod ulp
            in if ulp < 2 * r \<or> (2 * r = ulp \<and> odd q) then (q + 1) * ulp else q * ulp))"

definition candidates :: "nat \<Rightarrow> nat \<Rightarrow> nat list" where
  "candidates x k =
     (let d = length (decimal x)
      in if d \<le> k then [x]
         else (let p = 10 ^ (d - k); lo = (x div p) * p
               in filter (\<lambda>v. to_double v = x) [lo, lo + p]))"

definition closest :: "nat \<Rightarrow> nat list \<Rightarrow> nat" where
  "closest x vs =
     (case vs of
        [] \<Rightarrow> x
      | [v] \<Rightarrow> v
      | lo # hi # rest \<Rightarrow> if x - lo \<le> hi - x then lo else hi)"

definition shortest :: "nat \<Rightarrow> nat" where
  "shortest x =
     (case find (\<lambda>k. candidates x k \<noteq> []) [1..<18] of
        Some k \<Rightarrow> closest x (candidates x k)
      | None \<Rightarrow> x)"

definition strip_zeros :: "string \<Rightarrow> string" where
  "strip_zeros ds = rev (dropWhile (\<lambda>c. c = CHR ''0'') (rev ds))"

definition number_text :: "nat \<Rightarrow> string" where
  "number_text n =
     (if n < 2 ^ 53 then decimal n
      else (let x = to_double n
            in if 2 ^ 1024 \<le> x then ''Infinity''
               else (let ds = decimal (shortest x)
                     in if length ds \<le> 21 then ds
                        else (let sig = strip_zeros ds
                              in (if length sig = 1 then sig else hd sig # CHR ''.'' # tl sig)
                                 @ ''e+'' @ decimal (length ds - 1)))))"

definition number_to_string :: "int \<Rightarrow> string" where
  "number_to_string i =
     (if 0 \<le> i then number_text (nat i) else CHR ''-'' # number_text (nat (- i)))"

text \<open>
  \<open>ToString\<close>, as a template literal applies it. An object is converted through its
  \<open>toString\<close>: the inherited one answers \<open>[object Object]\<close>; where a lookup of
  \<open>toString\<close> finds an entry, that entry is data and cannot be called, neither can a
  shadowing \<open>valueOf\<close>, and the inherited \<open>valueOf\<close> returns the object
  itself, so the conversion throws.
\<close>

fun js_to_string :: "jsval \<Rightarrow> js_exception + string" where
  "js_to_string JUndefined = Inr ''undefined''"
| "js_to_string JNull = Inr ''null''"
| "js_to_string (JBool b) = Inr (if b then ''true'' else ''false'')"
| "js_to_string (JNum n) = Inr (number_to_string n)"
| "js_to_string (JStr s) = Inr s"
| "js_to_string (JObj ps) =
     (if map_of ps ''toString'' = None then Inr ''[object Object]'' else Inl TypeError)"

text \<open>
  A list of steps that may throw, run from left to right: the first exception ends it.
\<close>

fun map_exc :: "('a \<Rightarrow> js_exception + 'b) \<Rightarrow> 'a list \<Rightarrow> js_exception + 'b list" where
  "map_exc f [] = Inr []"
| "map_exc f (x # xs) =
     (case f x of
        Inl ex \<Rightarrow> Inl ex
      | Inr y \<Rightarrow> (case map_exc f xs of Inl ex \<Rightarrow> Inl ex | Inr ys \<Rightarrow> Inr (y # ys)))"

text \<open>
  \<open>Array.prototype.join\<close>: undefined and null elements contribute the empty string,
  every other element its \<open>ToString\<close>.
\<close>

fun join_element :: "jsval \<Rightarrow> js_exception + string" where
  "join_element JUndefined = Inr []"
| "join_element JNull = Inr []"
| "join_element v = js_to_string v"

fun join_strings :: "string \<Rightarrow> string list \<Rightarrow> string" where
  "join_strings sep [] = []"
| "join_strings sep [x] = x"
| "join_strings sep (x # y # ys) = x @ sep @ join_strings sep (y # ys)"

definition js_join :: "jsval list \<Rightarrow> string \<Rightarrow> js_exception + string" where
  "js_join vs sep =
     (case map_exc join_element vs of
        Inl ex \<Rightarrow> Inl ex
      | Inr parts \<Rightarrow> Inr (join_strings sep parts))"

text \<open>\<open>String.prototype.startsWith\<close> and \<open>String.prototype.includes\<close>.\<close>

definition startsWith :: "string \<Rightarrow> string \<Rightarrow> bool" where
  "startsWith s p = (take (length p) s = p)"

fun includes_str :: "string \<Rightarrow> string \<Rightarrow> bool" where
  "includes_str [] sub = (sub = [])"
| "includes_str (c # cs) sub = (startsWith (c # cs) sub \<or> includes_str cs sub)"

section \<open>The process environment\<close>

text \<open>
  What the handlers read from outside: \<open>process.env.NODE_ENV\<close>, the clock behind
  \<open>new Date().toISOString()\<close>, and the text \<open>Error.captureStackTrace\<close> records.
\<close>

record env =
  NODE_ENV :: "string option"
  now :: string
  trace :: string

section \<open>The error taxonomy (errorHandler.ts)\<close>

text \<open>
  \<open>class AppError extends Error\<close>: \<open>super(message)\<close> creates the hidden \<open>message\<close>,
  the two assignments create ordinary fields, \<open>captureStackTrace\<close> the hidden
  \<open>stack\<close>; \<open>name\<close> is inherited from \<open>Error.prototype\<close>. The status code defaults
  to 500.
\<close>

definition AppError :: "env \<Rightarrow> string \<Rightarrow> int option \<Rightarrow> js_object" where
  "AppError e msg statusCode =
     [(''message'', OwnHidden, JStr msg),
      (''statusCode'', OwnEnumerable, JNum (case statusCode of None \<Rightarrow> 500 | Some c \<Rightarrow> c)),
      (''isOperational'', OwnEnumerable, JBool True),
      (''stack'', OwnHidden, JStr (trace e)),
      (''name'', Inherited, JStr ''Error'')]"

text \<open>The helper that derives the symbolic code from status code and message.\<close>

definition getErrorCode :: "jsval \<Rightarrow> jsval \<Rightarrow> js_exception + string" where
  "getErrorCode statusCode msg =
     (if statusCode = JNum 404 then
        (case msg of
           JStr m \<Rightarrow> if includes_str m ''find'' then Inr ''ROUTE_NOT_FOUND''
                     else Inr ''RESOURCE_NOT_FOUND''
         | _ \<Rightarrow> Inl TypeError)
      else if statusCode = JNum 401 then Inr ''UNAUTHORIZED''
      else if statusCode = JNum 403 then Inr ''FORBIDDEN''
      else if statusCode = JNum 400 then Inr ''BAD_REQUEST''
      else if statusCode = JNum 409 then Inr ''CONFLICT''
      else if statusCode = JNum 422 then Inr ''VALIDATION_ERROR''
      else if statusCode = JNum 429 then Inr ''RATE_LIMIT_EXCEEDED''
      else Inr ''SERVER_ERROR'')"

text \<open>
  \<open>handleCastError\<close>: \<open>Invalid ${error.path}: ${error.value}\<close>, status 400. The
  template literal throws when \<open>path\<close> or \<open>value\<close> has no string form.
\<close>

definition handleCastError :: "env \<Rightarrow> js_object \<Rightarrow> js_exception + js_object" where
  "handleCastError e err =
     (case js_to_string (obj_get err ''path'') of
        Inl ex \<Rightarrow> Inl ex
      | Inr path \<Rightarrow>
          (case js_to_string (obj_get err ''value'') of
             Inl ex \<Rightarrow> Inl ex
           | Inr val \<Rightarrow> Inr (AppError e (''Invalid '' @ path @ '': '' @ val) (Some 400))))"

text \<open>
  \<open>handleValidationError\<close>: \<open>Object.values(error.errors).map(err => err.message)\<close>,
  then \<open>Invalid input data. ${errors.join(". ")}\<close>. \<open>Object.values\<close> throws on
  undefined and null, and so does reading \<open>message\<close> of such an element; the join
  throws on a message that has no string form.
\<close>

definition handleValidationError :: "env \<Rightarrow> js_object \<Rightarrow> js_exception + js_object" where
  "handleValidationError e err =
     (case js_values (obj_get err ''errors'') of
        Inl ex \<Rightarrow> Inl ex
      | Inr subs \<Rightarrow>
          (case map_exc (\<lambda>sub. js_get sub ''message'') subs of
             Inl ex \<Rightarrow> Inl ex
           | Inr errors \<Rightarrow>
               (case js_join errors ''. '' of
                  Inl ex \<Rightarrow> Inl ex
                | Inr joined \<Rightarrow>
                    Inr (AppError e (''Invalid input data. '' @ joined) (Some 400)))))"

text \<open>
  \<open>handleDuplicateKeyError\<close>: \<open>field = Object.keys(error.keyValue)[0]\<close> (undefined
  when there is no key), \<open>value = error.keyValue[field]\<close>, message
  \<open>${field} '${value}' already exists. Please use another value.\<close> The key of the
  computed read is the string form of \<open>field\<close>.
\<close>

definition handleDuplicateKeyError :: "env \<Rightarrow> js_object \<Rightarrow> js_exception + js_object" where
  "handleDuplicateKeyError e err =
     (case js_keys (obj_get err ''keyValue'') of
        Inl ex \<Rightarrow> Inl ex
      | Inr ks \<Rightarrow>
          (let field = (case ks of [] \<Rightarrow> JUndefined | k # rest \<Rightarrow> JStr k) in
           case js_to_string field of
             Inl ex \<Rightarrow> Inl ex
           | Inr key \<Rightarrow>
               (case js_get (obj_get err ''keyValue'') key of
                  Inl ex \<Rightarrow> Inl ex
                | Inr v \<Rightarrow>
                    (case js_to_string v of
                       Inl ex \<Rightarrow> Inl ex
                     | Inr val \<Rightarrow>
                         Inr (AppError e (key @ '' '' @ [CHR 0x27] @ val @ [CHR 0x27]
                                           @ '' already exists. Please use another value.'')
                                (Some 400))))))"

definition handleJWTError :: "env \<Rightarrow> js_object" where
  "handleJWTError e = AppError e ''Invalid token. Please log in again.'' (Some 401)"

definition handleJWTExpiredError :: "env \<Rightarrow> js_object" where
  "handleJWTExpiredError e =
     AppError e ''Your token has expired. Please log in again.'' (Some 401)"

section \<open>The response formatter (errorHandler.ts)\<close>

text \<open>
  The \<open>ErrorResponse\<close> object literal handed to \<open>res.json\<close>, and the status handed to
  \<open>res.status\<close>. An optional key is \<open>None\<close> when the literal does not have it.
  \<open>res.json\<close> serialises with \<open>JSON.stringify\<close>, which leaves out every key whose
  value is undefined: \<open>on_the_wire\<close> says whether a key reaches the client. The
  \<open>console.error\<close> of \<open>sendErrorProd\<close> only logs and is left out.
\<close>

record error_detail =
  code :: string
  timestamp :: string
  name :: "jsval option"

record ErrorResponse =
  success :: bool
  message :: jsval
  error :: error_detail
  stack :: "jsval option"

record http_response =
  status :: jsval
  body :: ErrorResponse

definition on_the_wire :: "jsval option \<Rightarrow> bool" where
  "on_the_wire f = (case f of None \<Rightarrow> False | Some v \<Rightarrow> v \<noteq> JUndefined)"

definition sendErrorDev :: "env \<Rightarrow> js_object \<Rightarrow> js_exception + http_response" where
  "sendErrorDev e err =
     (case getErrorCode (obj_get err ''statusCode'') (obj_get err ''message'') of
        Inl ex \<Rightarrow> Inl ex
      | Inr c \<Rightarrow>
          Inr \<lparr>status = obj_get err ''statusCode'',
               body = \<lparr>success = False,
                        message = obj_get err ''message'',
                        error = \<lparr>code = c, timestamp = now e,
                                  name = Some (obj_get err ''name'')\<rparr>,
                        stack = (if NODE_ENV e = Some ''development''
                                 then Some (obj_get err ''stack'') else None)\<rparr>\<rparr>)"

definition sendErrorProd :: "env \<Rightarrow> js_object \<Rightarrow> js_exception + http_response" where
  "sendErrorProd e err =
     (if js_truthy (obj_get err ''isOperational'') then
        (case getErrorCode (obj_get err ''statusCode'') (obj_get err ''message'') of
           Inl ex \<Rightarrow> Inl ex
         | Inr c \<Rightarrow>
             Inr \<lparr>status = obj_get err ''statusCode'',
                  body = \<lparr>success = False,
                           message = obj_get err ''message'',
                           error = \<lparr>code = c, timestamp = now e, name = None\<rparr>,
                           stack = None\<rparr>\<rparr>)
      else
        Inr \<lparr>status = JNum 500,
             body = \<lparr>success = False,
                      message = JStr ''Internal server error. Please try again later.'',
                      error = \<lparr>code = ''INTERNAL_SERVER_ERROR'', timestamp = now e,
                                name = None\<rparr>,
                      stack = None\<rparr>\<rparr>)"

section \<open>The error classifier (globalErrorHandler)\<close>

text \<open>
  Lines 142 to 157 of \<open>globalErrorHandler\<close>: the defaults written into \<open>err\<close>, the
  copy \<open>error = { ...err }\<close> with \<open>error.message = err.message\<close>, and the five
  \<open>if\<close> statements, each of which overwrites \<open>error\<close> when its test holds. The
  handlers receive \<open>err\<close> (with the defaults), not the copy. The result is the value
  of \<open>error\<close> after line 157, or the exception a handler threw.
\<close>

definition with_defaults :: "js_object \<Rightarrow> js_object" where
  "with_defaults err0 =
     (let err1 = obj_set err0 ''statusCode'' (js_or (obj_get err0 ''statusCode'') (JNum 500))
      in obj_set err1 ''status'' (js_or (obj_get err1 ''status'') (JStr ''error'')))"

definition classified :: "env \<Rightarrow> js_object \<Rightarrow> js_exception + js_object" where
  "classified e err0 =
     (let err = with_defaults err0;
          error0 = obj_set (spread err) ''message'' (obj_get err ''message'')
      in case (if obj_get err ''name'' = JStr ''CastError''
               then handleCastError e err else Inr error0) of
           Inl ex \<Rightarrow> Inl ex
         | Inr error1 \<Rightarrow>
             (case (if obj_get err ''name'' = JStr ''ValidationError''
                    then handleValidationError e err else Inr error1) of
                Inl ex \<Rightarrow> Inl ex
              | Inr error2 \<Rightarrow>
                  (case (if obj_get err ''code'' = JNum 11000
                         then handleDuplicateKeyError e err else Inr error2) of
                     Inl ex \<Rightarrow> Inl ex
                   | Inr error3 \<Rightarrow>
                       (let error4 = (if obj_get err ''name'' = JStr ''JsonWebTokenError''
                                      then handleJWTError e else error3);
                            error5 = (if obj_get err ''name'' = JStr ''TokenExpiredError''
                                      then handleJWTExpiredError e else error4)
                        in Inr error5))))"

text \<open>
  The middleware itself. The module is strict-mode code, so the first write
  \<open>err.statusCode = ...\<close> throws on anything that is not an object. The final
  \<open>console.error\<close> only logs and is left out.
\<close>

definition globalErrorHandler :: "env \<Rightarrow> jsval \<Rightarrow> js_exception + http_response" where
  "globalErrorHandler e err =
     (case err of
        JObj ps \<Rightarrow>
          (let isDevelopment = (NODE_ENV e = Some ''development'') in
           case classified e ps of
             Inl ex \<Rightarrow> Inl ex
           | Inr error1 \<Rightarrow>
               if isDevelopment then sendErrorDev e error1 else sendErrorProd e error1)
      | _ \<Rightarrow> Inl TypeError)"

section \<open>The subclasses of AppError\<close>

text \<open>A default parameter applies when the argument is undefined (\<open>None\<close>).\<close>

definition AuthenticationError :: "env \<Rightarrow> string option \<Rightarrow> js_object" where
  "AuthenticationError e msg =
     AppError e (case msg of None \<Rightarrow> ''Authentication failed'' | Some m \<Rightarrow> m) (Some 401)"

definition AuthorizationError :: "env \<Rightarrow> string option \<Rightarrow> js_object" where
  "AuthorizationError e msg =
     AppError e (case msg of None \<Rightarrow> ''You are not authorized to perform this action''
                 | Some m \<Rightarrow> m) (Some 403)"

definition NotFoundError :: "env \<Rightarrow> string option \<Rightarrow> js_object" where
  "NotFoundError e resource =
     AppError e ((case resource of None \<Rightarrow> ''Resource'' | Some r \<Rightarrow> r) @ '' not found'')
       (Some 404)"

definition ConflictError :: "env \<Rightarrow> string option \<Rightarrow> js_object" where
  "ConflictError e msg =
     AppError e (case msg of None \<Rightarrow> ''Resource already exists'' | Some m \<Rightarrow> m) (Some 409)"

definition BadRequestError :: "env \<Rightarrow> string option \<Rightarrow> js_object" where
  "BadRequestError e msg =
     AppError e (case msg of None \<Rightarrow> ''Bad request'' | Some m \<Rightarrow> m) (Some 400)"

definition InternalServerError :: "env \<Rightarrow> string option \<Rightarrow> js_object" where
  "InternalServerError e msg =
     AppError e (case msg of None \<Rightarrow> ''Internal server error'' | Some m \<Rightarrow> m) (Some 500)"

text \<open>\<open>notFound\<close>: the plain 404 forwarder of errorHandler.ts.\<close>

record request =
  originalUrl :: string  req_method :: string
  protocol :: string  host :: "string option"

datatype next_call = Next | NextError js_object

definition notFound :: "env \<Rightarrow> request \<Rightarrow> next_call" where
  "notFound e req =
     NextError (AppError e (''Can't find '' @ originalUrl req @ '' on this server!'') (Some 404))"

section \<open>The API not-found responder\<close>

text \<open>
  \<open>toLowerCase\<close> on the request target (ASCII, as request targets are) and
  \<open>split("/")\<close>, which keeps empty pieces; \<open>filter(Boolean)\<close> then drops them.
\<close>

definition upper_case :: string where
  "upper_case = ''ABCDEFGHIJKLMNOPQRSTUVWXYZ''"

definition lower_case :: string where
  "lower_case = ''abcdefghijklmnopqrstuvwxyz''"

definition lower_char :: "char \<Rightarrow> char" where
  "lower_char c = (case map_of (zip upper_case lower_case) c of Some d \<Rightarrow> d | None \<Rightarrow> c)"

definition toLowerCase :: "string \<Rightarrow> string" where
  "toLowerCase s = map lower_char s"

fun split_str :: "string \<Rightarrow> char \<Rightarrow> string list" where
  "split_str [] sep = [[]]"
| "split_str (c # cs) sep =
     (if c = sep then [] # split_str cs sep
      else (case split_str cs sep of [] \<Rightarrow> [[c]] | w # ws \<Rightarrow> (c # w) # ws))"

text \<open>
  The directory \<open>apiRoutes\<close> is an object literal, so the computed read
  \<open>apiRoutes[resource]\<close> also finds what every object inherits from
  \<open>Object.prototype\<close>: functions, and for \<open>__proto__\<close> the prototype object itself.
  All of them are truthy and none of them is iterable.
\<close>

definition apiRoutes :: "(string \<times> string list) list" where
  "apiRoutes =
     [(''auth'', [''/api/auth/register'', ''/api/auth/login'', ''/api/auth/logout'',
                  ''/api/auth/profile'', ''/api/auth/forgot-password'',
                  ''/api/auth/reset-password'', ''/api/auth/change-password'']),
      (''products'', [''/api/products'', ''/api/products/search'', ''/api/products/featured'',
                      ''/api/products/{id}'', ''/api/products/{id}/reviews'']),
      (''categories'', [''/api/categories'', ''/api/categories/tree'', ''/api/categories/{id}'']),
      (''cart'', [''/api/cart'', ''/api/cart/add'', ''/api/cart/update'', ''/api/cart/remove'',
                  ''/api/cart/clear'']),
      (''orders'', [''/api/orders'', ''/api/orders/my-orders'', ''/api/orders/{id}'',
                    ''/api/orders/{id}/cancel'']),
      (''reviews'', [''/api/reviews'', ''/api/reviews/product/{id}'', ''/api/reviews/{id}'']),
      (''users'', [''/api/users/profile'', ''/api/users/addresses'', ''/api/users/orders'']),
      (''wishlist'', [''/api/wishlist'', ''/api/wishlist/add'', ''/api/wishlist/remove'']),
      (''coupons'', [''/api/coupons/active'', ''/api/coupons/validate'']),
      (''banners'', [''/api/banners/active'']),
      (''admin'', [''/api/admin/dashboard'', ''/api/admin/users'', ''/api/admin/orders'',
                   ''/api/admin/products'', ''/api/admin/categories''])]"

definition object_prototype_keys :: "string list" where
  "object_prototype_keys =
     [''constructor'', ''__defineGetter__'', ''__defineSetter__'', ''hasOwnProperty'',
      ''__lookupGetter__'', ''__lookupSetter__'', ''isPrototypeOf'', ''propertyIsEnumerable'',
      ''toString'', ''valueOf'', ''__proto__'', ''toLocaleString'']"

datatype route_entry = RouteList "string list" | PrototypeMember

definition apiRoutes_get :: "string \<Rightarrow> route_entry option" where
  "apiRoutes_get resource =
     (case map_of apiRoutes resource of
        Some routes \<Rightarrow> Some (RouteList routes)
      | None \<Rightarrow> if resource \<in> set object_prototype_keys then Some PrototypeMember else None)"

definition commonSuggestions :: "string list" where
  "commonSuggestions =
     [''/api/auth/login'', ''/api/auth/register'', ''/api/products'', ''/api/categories'',
      ''/api/orders'']"

definition tips :: "string list" where
  "tips =
     [''Check if the HTTP method (GET, POST, PUT, DELETE) is correct'',
      ''Ensure all required parameters are included'',
      ''Verify the endpoint URL spelling and format'',
      ''Check if authentication is required for this endpoint'']"

text \<open>The bullet character of the message, in UTF-8.\<close>

definition bullet :: string where
  "bullet = [CHR 0xE2, CHR 0x80, CHR 0xA2]"

text \<open>
  \<open>suggestions.push(...apiRoutes[resource])\<close> when \<open>resource && apiRoutes[resource]\<close>,
  else the common suggestions. Spreading a value that is not iterable throws.
\<close>

definition suggestions_for :: "string option \<Rightarrow> js_exception + string list" where
  "suggestions_for resource =
     (case resource of
        None \<Rightarrow> Inr commonSuggestions
      | Some r \<Rightarrow>
          (case apiRoutes_get r of
             None \<Rightarrow> Inr commonSuggestions
           | Some (RouteList routes) \<Rightarrow> Inr routes
           | Some PrototypeMember \<Rightarrow> Inl TypeError))"

text \<open>
  The message \<open>apiNotFoundHandler\<close> assembles: the endpoint line, the first five
  suggestions if there are any, the documentation link and the troubleshooting tips.
\<close>

definition notFoundMessage :: "request \<Rightarrow> string list \<Rightarrow> string" where
  "notFoundMessage req suggestions =
     ''API endpoint '' @ [CHR 0x27] @ req_method req @ '' '' @ originalUrl req @ [CHR 0x27]
       @ '' not found.''
     @ (if length suggestions > 0
        then ''\<newline>\<newline>Did you mean one of these:''
               @ concat (map (\<lambda>suggestion. ''\<newline>  '' @ bullet @ '' '' @ suggestion)
                           (take 5 suggestions))
        else [])
     @ ''\<newline>\<newline>For complete API documentation, visit: '' @ protocol req @ ''://''
     @ (case host req of None \<Rightarrow> ''undefined'' | Some h \<Rightarrow> h) @ ''/docs''
     @ ''\<newline>\<newline>Troubleshooting tips:''
     @ concat (map (\<lambda>tip. ''\<newline>  '' @ bullet @ '' '' @ tip) tips)"

definition apiNotFoundHandler :: "env \<Rightarrow> request \<Rightarrow> js_exception + next_call" where
  "apiNotFoundHandler e req =
     (if \<not> startsWith (originalUrl req) ''/api/'' then Inr Next
      else
        (let pathSegments =
               filter (\<lambda>s. s \<noteq> []) (split_str (toLowerCase (originalUrl req)) (CHR ''/''));
             resource = (if 1 < length pathSegments then Some (pathSegments ! 1) else None)
         in case suggestions_for resource of
              Inl ex \<Rightarrow> Inl ex
            | Inr suggestions \<Rightarrow>
                Inr (NextError (AppError e (notFoundMessage req suggestions) (Some 404)))))"

text \<open>
  The value of \<open>resource\<close> in \<open>apiNotFoundHandler\<close>, as a function of the request
  target: the second non-empty segment of the lower-cased target, if there is one.
\<close>

definition resource_of :: "string \<Rightarrow> string option" where
  "resource_of url =
     (let pathSegments = filter (\<lambda>s. s \<noteq> []) (split_str (toLowerCase url) (CHR ''/''))
      in if 1 < length pathSegments then Some (pathSegments ! 1) else None)"

section \<open>The process supervisor (server entry point)\<close>

text \<open>
  The process as far as shutdown goes: whether the variable \<open>server\<close> holds the
  listening server, whether \<open>connectDB\<close> has registered its own \<open>SIGINT\<close> handler,
  how often \<open>server.close\<close> and \<open>mongoose.connection.close\<close> were invoked, how many
  of their continuations are still waiting, the exit codes handed to
  \<open>process.exit\<close>, and the console lines. \<open>process.exit\<close> ends the process: once an
  exit code is recorded nothing else runs.
\<close>

datatype signal = SIGTERM | SIGINT

datatype event = Signal signal | ServerClosed | DbClosed

datatype console_line = Received signal | HttpServerClosed | ShutdownCompleted | MongoClosed

record process =
  server :: bool
  dbHandler :: bool
  closeCalls :: nat
  closeCallbacks :: nat
  dbCloseCalls :: nat
  dbClosePending :: nat
  exits :: "int list"
  console :: "console_line list"

definition console_log :: "console_line \<Rightarrow> process \<Rightarrow> process" where
  "console_log l p = p\<lparr>console := console p @ [l]\<rparr>"

definition process_exit :: "int \<Rightarrow> process \<Rightarrow> process" where
  "process_exit c p = p\<lparr>exits := exits p @ [c]\<rparr>"

text \<open>
  \<open>gracefulShutdown(signal)()\<close>: log, then \<open>server.close(callback)\<close> when the server
  exists, else log and exit. There is no test of an earlier signal.
\<close>

definition gracefulShutdown :: "signal \<Rightarrow> process \<Rightarrow> process" where
  "gracefulShutdown sig p =
     (let p1 = console_log (Received sig) p in
      if server p1
      then p1\<lparr>closeCalls := closeCalls p1 + 1, closeCallbacks := closeCallbacks p1 + 1\<rparr>
      else process_exit 0 (console_log ShutdownCompleted p1))"

text \<open>The callback given to \<open>server.close\<close>.\<close>

definition closeCallback :: "process \<Rightarrow> process" where
  "closeCallback p =
     process_exit 0 (console_log ShutdownCompleted (console_log HttpServerClosed p))"

text \<open>
  The \<open>SIGINT\<close> handler of \<open>connectDB\<close>: it starts closing the connection and
  continues after the \<open>await\<close>.
\<close>

definition dbSigintHandler :: "process \<Rightarrow> process" where
  "dbSigintHandler p =
     p\<lparr>dbCloseCalls := dbCloseCalls p + 1, dbClosePending := dbClosePending p + 1\<rparr>"

definition dbSigintContinuation :: "process \<Rightarrow> process" where
  "dbSigintContinuation p =
     process_exit 0 (console_log MongoClosed (p\<lparr>dbClosePending := dbClosePending p - 1\<rparr>))"

text \<open>
  One turn of the event loop. A signal runs its listeners in the order of registration
  (\<open>gracefulShutdown\<close> first); the close event of the server runs the callbacks waiting
  for it, of which the first one exits.
\<close>

definition step :: "process \<Rightarrow> event \<Rightarrow> process" where
  "step p ev =
     (if exits p \<noteq> [] then p
      else case ev of
        Signal SIGTERM \<Rightarrow> gracefulShutdown SIGTERM p
      | Signal SIGINT \<Rightarrow>
          (let p1 = gracefulShutdown SIGINT p in
           if exits p1 = [] \<and> dbHandler p1 then dbSigintHandler p1 else p1)
      | ServerClosed \<Rightarrow> if closeCallbacks p > 0 then closeCallback p else p
      | DbClosed \<Rightarrow> if dbClosePending p > 0 then dbSigintContinuation p else p)"

definition run :: "process \<Rightarrow> event list \<Rightarrow> process" where
  "run p evs = foldl step p evs"

text \<open>The running process after \<open>startServer\<close> has finished.\<close>

definition running :: process where
  "running = \<lparr>server = True, dbHandler = True, closeCalls = 0, closeCallbacks = 0,
              dbCloseCalls = 0, dbClosePending = 0, exits = [], console = []\<rparr>"

section \<open>Sample inputs\<close>

text \<open>A development and a production environment.\<close>

definition development :: env where
  "development = \<lparr>NODE_ENV = Some ''development'', now = ''2024-05-01T10:00:00.000Z'',
                  trace = ''Error: at globalErrorHandler''\<rparr>"

definition production :: env where
  "production = \<lparr>NODE_ENV = Some ''production'', now = ''2024-05-01T10:00:00.000Z'',
                 trace = ''Error: at globalErrorHandler''\<rparr>"

text \<open>\<open>new Error("boom")\<close>, thrown somewhere in a route.\<close>

definition plain_error :: js_object where
  "plain_error =
     [(''stack'', OwnHidden, JStr ''Error: boom at route''),
      (''message'', OwnHidden, JStr ''boom''),
      (''name'', Inherited, JStr ''Error'')]"

text \<open>A failure that has both the cast shape and the duplicate-key shape.\<close>

definition cast_and_duplicate :: js_object where
  "cast_and_duplicate =
     [(''name'', OwnEnumerable, JStr ''CastError''),
      (''message'', OwnHidden, JStr ''Cast to ObjectId failed''),
      (''path'', OwnEnumerable, JStr ''_id''),
      (''value'', OwnEnumerable, JStr ''abc''),
      (''code'', OwnEnumerable, JNum 11000),
      (''keyValue'', OwnEnumerable, JObj [(''email'', OwnEnumerable, JStr ''a@b.com'')])]"

text \<open>A schema validation failure with two field errors.\<close>

definition validation_failure :: js_object where
  "validation_failure =
     [(''name'', OwnEnumerable, JStr ''ValidationError''),
      (''message'', OwnHidden, JStr ''User validation failed''),
      (''errors'', OwnEnumerable,
         JObj [(''email'', OwnEnumerable,
                  JObj [(''message'', OwnHidden, JStr ''Email is required'')]),
               (''password'', OwnEnumerable,
                  JObj [(''message'', OwnHidden, JStr ''Password is too short'')])])]"

text \<open>The request \<open>GET /api/constructor\<close>.\<close>

definition api_constructor_request :: request where
  "api_constructor_request =
     \<lparr>originalUrl = ''/api/constructor'', req_method = ''GET'', protocol = ''http'',
      host = Some ''localhost:5000''\<rparr>"



definition expired_and_duplicate :: js_object where
  "expired_and_duplicate =
     [(''name'', OwnEnumerable, JStr ''TokenExpiredError''),
      (''message'', OwnEnumerable, JStr ''jwt expired''),
      (''code'', OwnEnumerable, JNum 11000),
      (''keyValue'', OwnEnumerable, JObj [(''email'', OwnEnumerable, JStr ''a@b.com'')])]"



section \<open>Facts about strings\<close>

lemma startsWith_iff: "startsWith s p \<longleftrightarrow> (\<exists>r. s = p @ r)"
proof
  assume "startsWith s p"
  then have "s = p @ drop (length p) s"
    unfolding startsWith_def by (metis append_take_drop_id)
  then show "\<exists>r. s = p @ r" ..
next
  assume "\<exists>r. s = p @ r"
  then show "startsWith s p"
    unfolding startsWith_def by auto
qed

lemma includes_str_iff: "includes_str s sub \<longleftrightarrow> (\<exists>pre post. s = pre @ sub @ post)"
proof (induction s)
  case Nil
  show ?case by auto
next
  case (Cons c cs)
  show ?case
  proof
    assume "includes_str (c # cs) sub"
    then consider "startsWith (c # cs) sub" | "includes_str cs sub" by auto
    then show "\<exists>pre post. c # cs = pre @ sub @ post"
    proof cases
      case 1
      then obtain r where "c # cs = sub @ r" using startsWith_iff by blast
      then have "c # cs = [] @ sub @ r" by simp
      then show ?thesis by blast
    next
      case 2
      then obtain pre post where "cs = pre @ sub @ post" using Cons.IH by blast
      then have "c # cs = (c # pre) @ sub @ post" by simp
      then show ?thesis by blast
    qed
  next
    assume "\<exists>pre post. c # cs = pre @ sub @ post"
    then obtain pre post where eq: "c # cs = pre @ sub @ post" by blast
    show "includes_str (c # cs) sub"
    proof (cases pre)
      case Nil
      with eq have "startsWith (c # cs) sub" using startsWith_iff by auto
      then show ?thesis by simp
    next
      case (Cons d pre')
      with eq have "cs = pre' @ sub @ post" by simp
      then have "includes_str cs sub" using Cons.IH by blast
      then show ?thesis by simp
    qed
  qed
qed

section \<open>Facts about string conversion\<close>

text \<open>
  The string forms of sample values.
\<close>

lemma js_to_string_examples:
  "js_to_string JUndefined = Inr ''undefined''"
  "js_to_string JNull = Inr ''null''"
  "js_to_string (JBool True) = Inr ''true''"
  "js_to_string (JBool False) = Inr ''false''"
  "js_to_string (JStr ''abc'') = Inr ''abc''"
  "js_to_string (JNum 0) = Inr ''0''"
  "js_to_string (JNum 404) = Inr ''404''"
  "js_to_string (JNum (- 42)) = Inr ''-42''"
  "js_to_string (JNum 9007199254740991) = Inr ''9007199254740991''"
  "js_to_string (JObj [(''a'', OwnEnumerable, JNum 1)]) = Inr ''[object Object]''"
  "js_to_string (JObj [(''toString'', OwnEnumerable, JStr ''x'')]) = Inl TypeError"
  by (simp_all add: number_to_string_def number_text_def digit_char_def)

text \<open>
  From \<open>10^21\<close> on a number prints in exponent form.
\<close>

lemma number_to_string_exponent:
  "number_to_string 1000000000000000000000 = ''1e+21''"
proof -
  let ?x = "1000000000000000000000 :: nat"
  have bl: "bit_length ?x = 70" by simp
  have td: "to_double ?x = ?x"
    by (simp add: to_double_def bl Let_def)
  have td2: "to_double 2000000000000000000000 = 2000000000000000000000"
    by (simp add: to_double_def Let_def)
  have dec: "decimal ?x = ''1000000000000000000000''"
    by (simp add: digit_char_def)
  have c: "candidates ?x 1 = [?x]"
    by (simp add: candidates_def dec td td2 Let_def)
  have u: "[1..<18] = (1::nat) # [2..<18]"
    by (simp add: upt_conv_Cons)
  have f: "find (\<lambda>k. candidates ?x k \<noteq> []) [1..<18] = Some 1"
    unfolding u by (simp only: find.simps c) simp
  have s: "shortest ?x = ?x"
    unfolding shortest_def f option.case c closest_def by simp
  have big: "\<not> ?x < 2 ^ 53" and fin: "\<not> (2::nat) ^ 1024 \<le> ?x"
    by simp_all
  have "number_text ?x = ''1e+21''"
    unfolding number_text_def Let_def td s dec
    using big fin by (simp add: strip_zeros_def digit_char_def)
  then show ?thesis
    by (simp add: number_to_string_def)
qed

section \<open>Facts about objects\<close>

lemma map_of_put_value_other:
  "k' \<noteq> k \<Longrightarrow> map_of (put_value ps k v) k' = map_of ps k'"
  by (induction ps k v rule: put_value.induct) auto

lemma map_of_put_value_same:
  "map_of ps k = Some (kd, old) \<Longrightarrow> map_of (put_value ps k v) k = Some (kd, v)"
  by (induction ps k v rule: put_value.induct) (auto split: if_splits)

lemma map_of_filter_other:
  "k' \<noteq> k \<Longrightarrow> map_of (filter (\<lambda>p. fst p \<noteq> k) ps) k' = map_of ps k'"
  by (induction ps) auto

lemma map_of_filter_same:
  "map_of (filter (\<lambda>p. fst p \<noteq> k) ps) k = None"
  by (induction ps) auto

lemma map_of_obj_set_other:
  "k' \<noteq> k \<Longrightarrow> map_of (obj_set ps k v) k' = map_of ps k'"
  unfolding obj_set_def
  by (auto simp: map_of_put_value_other map_of_filter_other map_add_def
           split: option.splits prop_kind.splits)

lemma obj_get_obj_set_other:
  "k' \<noteq> k \<Longrightarrow> obj_get (obj_set ps k v) k' = obj_get ps k'"
  unfolding obj_get_def by (simp add: map_of_obj_set_other)

lemma obj_get_obj_set_same: "obj_get (obj_set ps k v) k = v"
  unfolding obj_set_def obj_get_def
  by (auto simp: map_of_put_value_same map_of_filter_same map_add_def
           split: option.splits prop_kind.splits)

lemma map_of_obj_set_own:
  "map_of ps k = Some (OwnEnumerable, old) \<Longrightarrow>
   map_of (obj_set ps k v) k = Some (OwnEnumerable, v)"
  unfolding obj_set_def by (simp add: map_of_put_value_same)

lemma map_of_spread:
  "map_of ps k = Some (OwnEnumerable, v) \<Longrightarrow> map_of (spread ps) k = Some (OwnEnumerable, v)"
  unfolding spread_def by (induction ps) (auto split: if_splits)

lemma obj_get_spread:
  "map_of ps k = Some (OwnEnumerable, v) \<Longrightarrow> obj_get (spread ps) k = v"
  unfolding obj_get_def by (simp add: map_of_spread)

lemma AppError_fields:
  "obj_get (AppError e m s) ''message'' = JStr m"
  "obj_get (AppError e m (Some c)) ''statusCode'' = JNum c"
  "obj_get (AppError e m None) ''statusCode'' = JNum 500"
  "obj_get (AppError e m s) ''isOperational'' = JBool True"
  "obj_get (AppError e m s) ''stack'' = JStr (trace e)"
  "obj_get (AppError e m s) ''name'' = JStr ''Error''"
  by (simp_all add: AppError_def obj_get_def)

section \<open>The symbolic code\<close>

lemma getErrorCode_total: "\<exists>c. getErrorCode (JNum n) (JStr m) = Inr c"
  unfolding getErrorCode_def by simp

text \<open>
  Claim C5. For every status code and message, the symbolic-code derivation returns
  \<open>ROUTE_NOT_FOUND\<close> when the status is 404 and the message contains the substring
  \<open>find\<close>, \<open>RESOURCE_NOT_FOUND\<close> for any other 404, \<open>UNAUTHORIZED\<close> for 401,
  \<open>FORBIDDEN\<close> for 403, \<open>BAD_REQUEST\<close> for 400, \<open>CONFLICT\<close> for 409,
  \<open>VALIDATION_ERROR\<close> for 422, \<open>RATE_LIMIT_EXCEEDED\<close> for 429 and
  \<open>SERVER_ERROR\<close> for every other status code.
\<close>

theorem C5_getErrorCode:
  "getErrorCode (JNum n) (JStr m) =
     Inr (if n = 404 then
            (if (\<exists>pre post. m = pre @ ''find'' @ post) then ''ROUTE_NOT_FOUND''
             else ''RESOURCE_NOT_FOUND'')
          else if n = 401 then ''UNAUTHORIZED''
          else if n = 403 then ''FORBIDDEN''
          else if n = 400 then ''BAD_REQUEST''
          else if n = 409 then ''CONFLICT''
          else if n = 422 then ''VALIDATION_ERROR''
          else if n = 429 then ''RATE_LIMIT_EXCEEDED''
          else ''SERVER_ERROR'')"
  unfolding getErrorCode_def by (simp add: includes_str_iff)

text \<open>
  Claim C5 at four inputs: the message of \<open>notFound\<close>, the message of
  \<open>NotFoundError\<close>, a rate-limit response and a status outside the table.
\<close>

theorem C5_getErrorCode_witness:
  "getErrorCode (JNum 404) (JStr ''Can't find /api/x on this server!'') = Inr ''ROUTE_NOT_FOUND''
   \<and> getErrorCode (JNum 404) (JStr ''Product not found'') = Inr ''RESOURCE_NOT_FOUND''
   \<and> getErrorCode (JNum 429) (JStr ''Too many requests'') = Inr ''RATE_LIMIT_EXCEEDED''
   \<and> getErrorCode (JNum 405) (JStr ''Method not allowed'') = Inr ''SERVER_ERROR''"
proof -
  have yes: "\<exists>pre post. ''Can't find /api/x on this server!'' = pre @ ''find'' @ post"
    unfolding includes_str_iff [symmetric] by (simp add: startsWith_def)
  have no: "\<not> (\<exists>pre post. ''Product not found'' = pre @ ''find'' @ post)"
    unfolding includes_str_iff [symmetric] by (simp add: startsWith_def)
  from C5_getErrorCode [of 404 "''Can't find /api/x on this server!''"]
    C5_getErrorCode [of 404 "''Product not found''"]
    C5_getErrorCode [of 429 "''Too many requests''"]
    C5_getErrorCode [of 405 "''Method not allowed''"] yes no
  show ?thesis by simp
qed

text \<open>
  The error of the plain \<open>notFound\<close> forwarder always gets the code
  \<open>ROUTE_NOT_FOUND\<close>: its message contains \<open>find\<close>.
\<close>

lemma notFound_code:
  "notFound e req = NextError x \<Longrightarrow>
   getErrorCode (obj_get x ''statusCode'') (obj_get x ''message'') = Inr ''ROUTE_NOT_FOUND''"
proof -
  assume "notFound e req = NextError x"
  then have x: "x = AppError e (''Can't find '' @ originalUrl req @ '' on this server!'') (Some 404)"
    by (simp add: notFound_def)
  have "''Can't find '' @ originalUrl req @ '' on this server!''
          = ''Can't '' @ ''find'' @ ('' '' @ originalUrl req @ '' on this server!'')"
    by simp
  then have "includes_str (''Can't find '' @ originalUrl req @ '' on this server!'') ''find''"
    unfolding includes_str_iff by blast
  then show ?thesis
    unfolding x by (simp add: AppError_fields getErrorCode_def)
qed

section \<open>The classifier, read off the incoming failure\<close>

lemma map_of_with_defaults:
  "k \<noteq> ''statusCode'' \<Longrightarrow> k \<noteq> ''status'' \<Longrightarrow> map_of (with_defaults err) k = map_of err k"
  unfolding with_defaults_def by (simp add: Let_def map_of_obj_set_other)

lemma obj_get_with_defaults:
  "k \<noteq> ''statusCode'' \<Longrightarrow> k \<noteq> ''status'' \<Longrightarrow> obj_get (with_defaults err) k = obj_get err k"
  unfolding obj_get_def by (simp add: map_of_with_defaults)

lemma handleCastError_with_defaults:
  "handleCastError e (with_defaults err) = handleCastError e err"
proof -
  have "obj_get (with_defaults err) ''path'' = obj_get err ''path''"
    and "obj_get (with_defaults err) ''value'' = obj_get err ''value''"
    by (simp_all add: obj_get_with_defaults)
  then show ?thesis
    unfolding handleCastError_def by (simp split: sum.splits)
qed

lemma handleValidationError_with_defaults:
  "handleValidationError e (with_defaults err) = handleValidationError e err"
  unfolding handleValidationError_def by (simp add: obj_get_with_defaults)

lemma handleDuplicateKeyError_with_defaults:
  "handleDuplicateKeyError e (with_defaults err) = handleDuplicateKeyError e err"
proof -
  have "obj_get (with_defaults err) ''keyValue'' = obj_get err ''keyValue''"
    by (simp add: obj_get_with_defaults)
  then show ?thesis
    unfolding handleDuplicateKeyError_def by (simp split: sum.splits)
qed

text \<open>
  The defaults only touch \<open>statusCode\<close> and \<open>status\<close>, so every test and every
  handler can be read on the incoming failure itself.
\<close>

lemma classified_unfold:
  "classified e err =
     (case (if obj_get err ''name'' = JStr ''CastError'' then handleCastError e err
            else Inr (obj_set (spread (with_defaults err)) ''message''
                        (obj_get err ''message''))) of
        Inl ex \<Rightarrow> Inl ex
      | Inr error1 \<Rightarrow>
          (case (if obj_get err ''name'' = JStr ''ValidationError''
                 then handleValidationError e err else Inr error1) of
             Inl ex \<Rightarrow> Inl ex
           | Inr error2 \<Rightarrow>
               (case (if obj_get err ''code'' = JNum 11000
                      then handleDuplicateKeyError e err else Inr error2) of
                  Inl ex \<Rightarrow> Inl ex
                | Inr error3 \<Rightarrow>
                    Inr (if obj_get err ''name'' = JStr ''TokenExpiredError''
                         then handleJWTExpiredError e
                         else if obj_get err ''name'' = JStr ''JsonWebTokenError''
                         then handleJWTError e else error3))))"
proof -
  have "obj_get (with_defaults err) ''name'' = obj_get err ''name''"
    and "obj_get (with_defaults err) ''code'' = obj_get err ''code''"
    and "obj_get (with_defaults err) ''message'' = obj_get err ''message''"
    by (simp_all add: obj_get_with_defaults)
  then show ?thesis
    unfolding classified_def Let_def handleCastError_with_defaults
      handleValidationError_with_defaults handleDuplicateKeyError_with_defaults
    by (simp split: sum.splits)
qed

text \<open>
  The copy loses what is not an ordinary field: the defaults add nothing but
  \<open>statusCode\<close> and \<open>status\<close>, and the spread keeps ordinary fields only.
\<close>

lemma put_value_entries:
  "p \<in> set (put_value ps k v) \<Longrightarrow> fst p \<noteq> k \<Longrightarrow> p \<in> set ps"
  by (induction ps k v rule: put_value.induct) (auto split: if_splits)

lemma obj_set_entries:
  "p \<in> set (obj_set ps k v) \<Longrightarrow> fst p \<noteq> k \<Longrightarrow> p \<in> set ps"
proof (cases "map_of ps k")
  case None
  then show "p \<in> set (obj_set ps k v) \<Longrightarrow> fst p \<noteq> k \<Longrightarrow> p \<in> set ps"
    unfolding obj_set_def by auto
next
  case (Some kv)
  obtain kd old where kv: "kv = (kd, old)" by (cases kv)
  show "p \<in> set (obj_set ps k v) \<Longrightarrow> fst p \<noteq> k \<Longrightarrow> p \<in> set ps"
    unfolding obj_set_def using Some kv
    by (cases kd) (auto dest: put_value_entries)
qed

lemma with_defaults_entries:
  assumes "p \<in> set (with_defaults err)" and "fst p \<noteq> ''statusCode''" and "fst p \<noteq> ''status''"
  shows "p \<in> set err"
  using assms unfolding with_defaults_def Let_def
  by (blast dest: obj_set_entries)

lemma spread_hidden:
  assumes "\<forall>p \<in> set ps. fst p = k \<longrightarrow> fst (snd p) \<noteq> OwnEnumerable"
  shows "obj_get (spread ps) k = JUndefined"
proof -
  have "k \<notin> fst ` set (spread ps)"
    using assms unfolding spread_def by auto
  then have "map_of (spread ps) k = None"
    by (simp add: map_of_eq_None_iff)
  then show ?thesis by (simp add: obj_get_def)
qed

lemma copy_drops_hidden:
  assumes "\<forall>p \<in> set err. fst p = k \<longrightarrow> fst (snd p) \<noteq> OwnEnumerable"
    and "k \<noteq> ''statusCode''" and "k \<noteq> ''status''" and "k \<noteq> ''message''"
  shows "obj_get (obj_set (spread (with_defaults err)) ''message'' v) k = JUndefined"
proof -
  have "\<forall>p \<in> set (with_defaults err). fst p = k \<longrightarrow> fst (snd p) \<noteq> OwnEnumerable"
    using assms(1,2,3) with_defaults_entries by blast
  then have "obj_get (spread (with_defaults err)) k = JUndefined"
    by (rule spread_hidden)
  then show ?thesis
    using assms(4) by (simp add: obj_get_obj_set_other)
qed

section \<open>Production responses\<close>

text \<open>
  Claim C1. In production mode (\<open>NODE_ENV\<close> is not \<open>development\<close>) an error whose
  \<open>isOperational\<close> flag is not set to a true value is answered with status 500, the
  message \<open>Internal server error. Please try again later.\<close>, the code
  \<open>INTERNAL_SERVER_ERROR\<close> and no \<open>stack\<close> key. This holds for the formatter on
  any error object, and for the middleware whenever the error that reaches the
  formatter is not operational.
\<close>

theorem C1_production_non_operational:
  assumes "\<not> js_truthy (obj_get err ''isOperational'')"
  shows "sendErrorProd e err =
           Inr \<lparr>status = JNum 500,
                body = \<lparr>success = False,
                         message = JStr ''Internal server error. Please try again later.'',
                         error = \<lparr>code = ''INTERNAL_SERVER_ERROR'', timestamp = now e,
                                   name = None\<rparr>,
                         stack = None\<rparr>\<rparr>
         \<and> (NODE_ENV e \<noteq> Some ''development'' \<and> classified e ps = Inr err \<longrightarrow>
              globalErrorHandler e (JObj ps) =
                Inr \<lparr>status = JNum 500,
                     body = \<lparr>success = False,
                              message = JStr ''Internal server error. Please try again later.'',
                              error = \<lparr>code = ''INTERNAL_SERVER_ERROR'', timestamp = now e,
                                        name = None\<rparr>,
                              stack = None\<rparr>\<rparr>)"
  using assms unfolding globalErrorHandler_def sendErrorProd_def by simp

text \<open>
  Claim C1 at \<open>new Error("boom")\<close> in production: the copy that reaches the formatter
  has no \<open>isOperational\<close>, and the client sees the generic response.
\<close>

theorem C1_production_non_operational_witness:
  "\<not> js_truthy (obj_get [(''statusCode'', OwnEnumerable, JNum 500),
                          (''status'', OwnEnumerable, JStr ''error''),
                          (''message'', OwnEnumerable, JStr ''boom'')] ''isOperational'')
   \<and> NODE_ENV production \<noteq> Some ''development''
   \<and> classified production plain_error =
         Inr [(''statusCode'', OwnEnumerable, JNum 500),
              (''status'', OwnEnumerable, JStr ''error''),
              (''message'', OwnEnumerable, JStr ''boom'')]
   \<and> globalErrorHandler production (JObj plain_error) =
         Inr \<lparr>status = JNum 500,
              body = \<lparr>success = False,
                       message = JStr ''Internal server error. Please try again later.'',
                       error = \<lparr>code = ''INTERNAL_SERVER_ERROR'',
                                 timestamp = now production, name = None\<rparr>,
                       stack = None\<rparr>\<rparr>"
proof -
  let ?copy = "[(''statusCode'', OwnEnumerable, JNum 500),
                (''status'', OwnEnumerable, JStr ''error''),
                (''message'', OwnEnumerable, JStr ''boom'')]"
  have h1: "\<not> js_truthy (obj_get ?copy ''isOperational'')"
    by (simp add: obj_get_def)
  have h2: "NODE_ENV production \<noteq> Some ''development''"
    by (simp add: production_def)
  have h3: "classified production plain_error = Inr ?copy"
    by (simp add: classified_def with_defaults_def plain_error_def obj_set_def obj_get_def
          spread_def js_or_def Let_def)
  from C1_production_non_operational [OF h1, of production plain_error] h1 h2 h3
  show ?thesis by simp
qed

text \<open>
  Read on the incoming failure: whatever has no recognised shape and no ordinary
  \<open>isOperational\<close> field (every error from outside the hierarchy) is answered with
  the generic response in production.
\<close>

lemma production_hides_unknown_failure:
  assumes "NODE_ENV e \<noteq> Some ''development''"
    and "obj_get err ''name'' \<notin> {JStr ''CastError'', JStr ''ValidationError'',
                                   JStr ''JsonWebTokenError'', JStr ''TokenExpiredError''}"
    and "obj_get err ''code'' \<noteq> JNum 11000"
    and "\<forall>p \<in> set err. fst p = ''isOperational'' \<longrightarrow> fst (snd p) \<noteq> OwnEnumerable"
  shows "globalErrorHandler e (JObj err) =
           Inr \<lparr>status = JNum 500,
                body = \<lparr>success = False,
                         message = JStr ''Internal server error. Please try again later.'',
                         error = \<lparr>code = ''INTERNAL_SERVER_ERROR'', timestamp = now e,
                                   name = None\<rparr>,
                         stack = None\<rparr>\<rparr>"
proof -
  let ?copy = "obj_set (spread (with_defaults err)) ''message'' (obj_get err ''message'')"
  have cl: "classified e err = Inr ?copy"
    using assms(2,3) by (simp add: classified_unfold)
  have "obj_get ?copy ''isOperational'' = JUndefined"
    using assms(4) by (simp add: copy_drops_hidden)
  then show ?thesis
    using assms(1) cl unfolding globalErrorHandler_def sendErrorProd_def by simp
qed

section \<open>Overlapping shapes\<close>

text \<open>
  Claim C2 says that the earliest matching rule decides. A failure named
  \<open>CastError\<close> that also carries the code 11000 matches rule 1 and rule 3; the
  classifier returns the result of rule 3, not the \<open>Invalid _id: abc\<close> of rule 1.
\<close>

theorem C2_first_match_counterexample:
  "classified production cast_and_duplicate =
     Inr (AppError production
            ''email 'a@b.com' already exists. Please use another value.'' (Some 400))
   \<and> handleCastError production cast_and_duplicate =
       Inr (AppError production ''Invalid _id: abc'' (Some 400))
   \<and> classified production cast_and_duplicate
       \<noteq> handleCastError production cast_and_duplicate"
  by (simp add: classified_unfold cast_and_duplicate_def obj_get_def
        handleDuplicateKeyError_def handleCastError_def spread_def AppError_def)

text \<open>
  Claim C2, as the code has it. The five tests are separate \<open>if\<close> statements, each
  overwriting the result of the ones before, so the last matching rule wins, provided
  the handlers of the matching rules return. A failure can only match two rules when it
  carries the code 11000 together with one of the four names: for a \<open>CastError\<close>
  whose handler returns, and for a \<open>ValidationError\<close> whose handler returns, the
  result is that of the duplicate-key rule; for \<open>JsonWebTokenError\<close> and
  \<open>TokenExpiredError\<close> (when the duplicate-key handler returns) it is the token rule.
\<close>

theorem C2_last_match_wins:
  assumes "obj_get err ''code'' = JNum 11000"
  shows "(obj_get err ''name'' = JStr ''CastError''
            \<and> handleCastError e err = Inr x \<longrightarrow>
            classified e err = handleDuplicateKeyError e err)
       \<and> (obj_get err ''name'' = JStr ''ValidationError''
            \<and> handleValidationError e err = Inr x \<longrightarrow>
            classified e err = handleDuplicateKeyError e err)
       \<and> (obj_get err ''name'' = JStr ''JsonWebTokenError''
            \<and> handleDuplicateKeyError e err = Inr y \<longrightarrow>
            classified e err = Inr (handleJWTError e))
       \<and> (obj_get err ''name'' = JStr ''TokenExpiredError''
            \<and> handleDuplicateKeyError e err = Inr y \<longrightarrow>
            classified e err = Inr (handleJWTExpiredError e))"
  using assms by (auto simp: classified_unfold split: sum.splits)

text \<open>
  Claim C2 as amended, at a cast failure and at an expired token that both carry the
  code 11000.
\<close>

theorem C2_last_match_wins_witness:
  "obj_get cast_and_duplicate ''code'' = JNum 11000
   \<and> obj_get cast_and_duplicate ''name'' = JStr ''CastError''
   \<and> handleCastError production cast_and_duplicate =
        Inr (AppError production ''Invalid _id: abc'' (Some 400))
   \<and> classified production cast_and_duplicate =
        handleDuplicateKeyError production cast_and_duplicate
   \<and> obj_get expired_and_duplicate ''code'' = JNum 11000
   \<and> obj_get expired_and_duplicate ''name'' = JStr ''TokenExpiredError''
   \<and> handleDuplicateKeyError production expired_and_duplicate =
        Inr (AppError production
               ''email 'a@b.com' already exists. Please use another value.'' (Some 400))
   \<and> classified production expired_and_duplicate = Inr (handleJWTExpiredError production)"
proof -
  have c1: "obj_get cast_and_duplicate ''code'' = JNum 11000"
    and c2: "obj_get cast_and_duplicate ''name'' = JStr ''CastError''"
    and c3: "handleCastError production cast_and_duplicate =
        Inr (AppError production ''Invalid _id: abc'' (Some 400))"
    by (simp_all add: cast_and_duplicate_def obj_get_def handleCastError_def)
  have t1: "obj_get expired_and_duplicate ''code'' = JNum 11000"
    and t2: "obj_get expired_and_duplicate ''name'' = JStr ''TokenExpiredError''"
    by (simp_all add: expired_and_duplicate_def obj_get_def)
  have t3: "handleDuplicateKeyError production expired_and_duplicate =
        Inr (AppError production
               ''email 'a@b.com' already exists. Please use another value.'' (Some 400))"
    by (simp add: handleDuplicateKeyError_def expired_and_duplicate_def obj_get_def spread_def)
  from C2_last_match_wins [OF c1, where e = production
      and x = "AppError production ''Invalid _id: abc'' (Some 400)"] c2 c3
  have w1: "classified production cast_and_duplicate =
        handleDuplicateKeyError production cast_and_duplicate"
    by simp
  from C2_last_match_wins [OF t1, where e = production and y = "AppError production
               ''email 'a@b.com' already exists. Please use another value.'' (Some 400)"] t2 t3
  have w2: "classified production expired_and_duplicate = Inr (handleJWTExpiredError production)"
    by simp
  from c1 c2 c3 w1 t1 t2 t3 w2 show ?thesis by blast
qed

section \<open>Cast and duplicate-key failures\<close>




lemma handleCastError_throws:
  "(\<exists>ex. handleCastError e err = Inl ex) \<longleftrightarrow>
     (\<exists>ex. js_to_string (obj_get err ''path'') = Inl ex)
     \<or> (\<exists>ex. js_to_string (obj_get err ''value'') = Inl ex)"
  unfolding handleCastError_def by (auto split: sum.splits)

text \<open>
  What the cast handler throws, the classifier throws: the later rules are not reached.
\<close>

lemma classified_cast_throws:
  assumes "obj_get err ''name'' = JStr ''CastError''" and "handleCastError e err = Inl ex"
  shows "classified e err = Inl ex"
  using assms by (simp add: classified_unfold)




section \<open>Validation failures\<close>

lemma map_exc_messages:
  "map_exc (\<lambda>sub. js_get sub ''message'') (map JObj subs) =
     Inr (map (\<lambda>sub. obj_get sub ''message'') subs)"
  by (induction subs) simp_all

lemma js_join_strings: "js_join (map JStr msgs) sep = Inr (join_strings sep msgs)"
proof -
  have "map_exc join_element (map JStr msgs) = Inr msgs"
    by (induction msgs) simp_all
  then show ?thesis by (simp add: js_join_def)
qed

lemma handleValidationError_messages:
  assumes "obj_get err ''errors'' = JObj es"
    and "map (\<lambda>p. snd (snd p)) (spread es) = map JObj subs"
    and "map (\<lambda>sub. obj_get sub ''message'') subs = map JStr msgs"
  shows "handleValidationError e err =
           Inr (AppError e (''Invalid input data. '' @ join_strings ''. '' msgs) (Some 400))"
  using assms unfolding handleValidationError_def
  by (simp add: map_exc_messages js_join_strings)

text \<open>
  Claim C4 says that the message is the field messages joined by \<open>". "\<close> and nothing
  else. For two field errors the classifier returns
  \<open>Invalid input data. Email is required. Password is too short\<close>, which is not the
  bare join.
\<close>

theorem C4_validation_message_counterexample:
  "classified production validation_failure =
     Inr (AppError production
            ''Invalid input data. Email is required. Password is too short'' (Some 400))
   \<and> obj_get (AppError production
                ''Invalid input data. Email is required. Password is too short'' (Some 400))
        ''message''
      \<noteq> JStr (join_strings ''. '' [''Email is required'', ''Password is too short''])"
  by (simp add: classified_unfold validation_failure_def obj_get_def
        handleValidationError_def spread_def js_join_def AppError_def)

text \<open>
  Claim C4, as the code has it. A failure named \<open>ValidationError\<close> (without the code
  11000) whose \<open>errors\<close> map holds sub-errors with string messages is classified with
  status 400 and the message \<open>Invalid input data. \<close> followed by the field messages
  joined by \<open>". "\<close>.
\<close>

theorem C4_validation_message:
  assumes "obj_get err ''name'' = JStr ''ValidationError''"
    and "obj_get err ''code'' \<noteq> JNum 11000"
    and "obj_get err ''errors'' = JObj es"
    and "map (\<lambda>p. snd (snd p)) (spread es) = map JObj subs"
    and "map (\<lambda>sub. obj_get sub ''message'') subs = map JStr msgs"
  shows "\<exists>x. classified e err = Inr x \<and> obj_get x ''statusCode'' = JNum 400
           \<and> obj_get x ''message'' =
                JStr (''Invalid input data. '' @ join_strings ''. '' msgs)"
proof -
  have "classified e err =
          Inr (AppError e (''Invalid input data. '' @ join_strings ''. '' msgs) (Some 400))"
    using assms(1,2) handleValidationError_messages [OF assms(3,4,5)]
    by (simp add: classified_unfold)
  then show ?thesis by (simp add: AppError_fields)
qed

text \<open>
  Claim C4 as amended, at a failure with two field errors.
\<close>

theorem C4_validation_message_witness:
  "obj_get validation_failure ''name'' = JStr ''ValidationError''
   \<and> obj_get validation_failure ''code'' \<noteq> JNum 11000
   \<and> (\<exists>x. classified production validation_failure = Inr x
          \<and> obj_get x ''statusCode'' = JNum 400
          \<and> obj_get x ''message'' =
               JStr ''Invalid input data. Email is required. Password is too short'')"
proof -
  let ?es = "[(''email'', OwnEnumerable,
                  JObj [(''message'', OwnHidden, JStr ''Email is required'')]),
               (''password'', OwnEnumerable,
                  JObj [(''message'', OwnHidden, JStr ''Password is too short'')])]"
  let ?subs = "[[(''message'', OwnHidden, JStr ''Email is required'')],
                [(''message'', OwnHidden, JStr ''Password is too short'')]]"
  let ?msgs = "[''Email is required'', ''Password is too short'']"
  have h1: "obj_get validation_failure ''name'' = JStr ''ValidationError''"
    and h2: "obj_get validation_failure ''code'' \<noteq> JNum 11000"
    and h3: "obj_get validation_failure ''errors'' = JObj ?es"
    by (simp_all add: validation_failure_def obj_get_def)
  have h4: "map (\<lambda>p. snd (snd p)) (spread ?es) = map JObj ?subs"
    by (simp add: spread_def)
  have h5: "map (\<lambda>sub. obj_get sub ''message'') ?subs = map JStr ?msgs"
    by (simp add: obj_get_def)
  from C4_validation_message [OF h1 h2 h3 h4 h5, of production]
  have "\<exists>x. classified production validation_failure = Inr x
          \<and> obj_get x ''statusCode'' = JNum 400
          \<and> obj_get x ''message'' =
               JStr ''Invalid input data. Email is required. Password is too short''"
    by simp
  with h1 h2 show ?thesis by blast
qed

section \<open>Development responses\<close>

text \<open>
  An error a handler has built is an \<open>AppError\<close> instance, not a copy: in
  development mode its stack and its name are sent.
\<close>

lemma sendErrorDev_AppError:
  assumes "NODE_ENV e = Some ''development''"
  shows "\<exists>c. sendErrorDev e (AppError e' m (Some n)) =
           Inr \<lparr>status = JNum n,
                body = \<lparr>success = False, message = JStr m,
                         error = \<lparr>code = c, timestamp = now e, name = Some (JStr ''Error'')\<rparr>,
                         stack = Some (JStr (trace e'))\<rparr>\<rparr>"
proof -
  obtain c where "getErrorCode (JNum n) (JStr m) = Inr c"
    using getErrorCode_total by blast
  then show ?thesis
    using assms unfolding sendErrorDev_def by (simp add: AppError_fields)
qed

text \<open>
  An error of no recognised shape is formatted from the copy. Whenever its \<open>stack\<close>
  and \<open>name\<close> are not ordinary fields (as for every \<open>Error\<close> instance), the
  development response has the original message but neither of the two.
\<close>

lemma development_drops_hidden_stack_and_name:
  assumes "NODE_ENV e = Some ''development''"
    and "globalErrorHandler e (JObj err) = Inr r"
    and "obj_get err ''name'' \<notin> {JStr ''CastError'', JStr ''ValidationError'',
                                   JStr ''JsonWebTokenError'', JStr ''TokenExpiredError''}"
    and "obj_get err ''code'' \<noteq> JNum 11000"
    and "\<forall>p \<in> set err. fst p = ''stack'' \<longrightarrow> fst (snd p) \<noteq> OwnEnumerable"
    and "\<forall>p \<in> set err. fst p = ''name'' \<longrightarrow> fst (snd p) \<noteq> OwnEnumerable"
  shows "message (body r) = obj_get err ''message''
       \<and> stack (body r) = Some JUndefined \<and> name (error (body r)) = Some JUndefined
       \<and> \<not> on_the_wire (stack (body r)) \<and> \<not> on_the_wire (name (error (body r)))"
proof -
  let ?copy = "obj_set (spread (with_defaults err)) ''message'' (obj_get err ''message'')"
  have cl: "classified e err = Inr ?copy"
    using assms(3,4) by (simp add: classified_unfold)
  have st: "obj_get ?copy ''stack'' = JUndefined"
    using assms(5) by (simp add: copy_drops_hidden)
  have nm: "obj_get ?copy ''name'' = JUndefined"
    using assms(6) by (simp add: copy_drops_hidden)
  have ms: "obj_get ?copy ''message'' = obj_get err ''message''"
    by (rule obj_get_obj_set_same)
  from assms(1,2) cl have "sendErrorDev e ?copy = Inr r"
    unfolding globalErrorHandler_def by simp
  then show ?thesis
    using assms(1) st nm ms unfolding sendErrorDev_def on_the_wire_def
    by (auto split: sum.splits)
qed

text \<open>
  Claim C6 says that in development mode the response carries the stack trace and the
  error name. The copy \<open>{ ...err }\<close> keeps only ordinary fields, and of the hidden or
  inherited ones only \<open>message\<close> is put back. For a \<open>NotFoundError\<close> and for a plain
  \<open>Error\<close>, which both have a stack and the name \<open>Error\<close>, the response in
  development mode has the original message but \<open>name\<close> and \<open>stack\<close> are undefined,
  so neither key reaches the client.
\<close>

theorem C6_development_omits_stack_and_name:
  "globalErrorHandler development (JObj (NotFoundError development (Some ''Product''))) =
     Inr \<lparr>status = JNum 404,
          body = \<lparr>success = False, message = JStr ''Product not found'',
                   error = \<lparr>code = ''RESOURCE_NOT_FOUND'', timestamp = now development,
                             name = Some JUndefined\<rparr>,
                   stack = Some JUndefined\<rparr>\<rparr>
   \<and> globalErrorHandler development (JObj plain_error) =
     Inr \<lparr>status = JNum 500,
          body = \<lparr>success = False, message = JStr ''boom'',
                   error = \<lparr>code = ''SERVER_ERROR'', timestamp = now development,
                             name = Some JUndefined\<rparr>,
                   stack = Some JUndefined\<rparr>\<rparr>
   \<and> \<not> on_the_wire (Some JUndefined)
   \<and> obj_get (NotFoundError development (Some ''Product'')) ''stack''
        = JStr (trace development)
   \<and> obj_get (NotFoundError development (Some ''Product'')) ''name'' = JStr ''Error''
   \<and> obj_get plain_error ''stack'' = JStr ''Error: boom at route''
   \<and> obj_get plain_error ''name'' = JStr ''Error''"
  by (simp add: globalErrorHandler_def classified_def with_defaults_def NotFoundError_def
        AppError_def plain_error_def obj_set_def obj_get_def spread_def js_or_def Let_def
        development_def sendErrorDev_def getErrorCode_def startsWith_def on_the_wire_def)

section \<open>Operational errors pass through\<close>

lemma map_of_with_defaults_statusCode:
  assumes "map_of err ''statusCode'' = Some (OwnEnumerable, JNum n)" and "n \<noteq> 0"
  shows "map_of (with_defaults err) ''statusCode'' = Some (OwnEnumerable, JNum n)"
proof -
  have "obj_get err ''statusCode'' = JNum n"
    using assms(1) by (simp add: obj_get_def)
  then have "js_or (obj_get err ''statusCode'') (JNum 500) = JNum n"
    using assms(2) by (simp add: js_or_def)
  then show ?thesis
    using assms(1) unfolding with_defaults_def Let_def
    by (simp add: map_of_obj_set_other map_of_obj_set_own)
qed

lemma passthrough_copy:
  assumes "map_of err ''statusCode'' = Some (OwnEnumerable, JNum n)" and "n \<noteq> 0"
    and "map_of err ''isOperational'' = Some (OwnEnumerable, JBool True)"
  shows "obj_get (obj_set (spread (with_defaults err)) ''message'' v) ''statusCode'' = JNum n"
    and "obj_get (obj_set (spread (with_defaults err)) ''message'' v) ''isOperational'' = JBool True"
    and "obj_get (obj_set (spread (with_defaults err)) ''message'' v) ''message'' = v"
proof -
  show "obj_get (obj_set (spread (with_defaults err)) ''message'' v) ''statusCode'' = JNum n"
    using map_of_with_defaults_statusCode [OF assms(1,2)]
    by (simp add: obj_get_obj_set_other obj_get_spread)
  have "map_of (with_defaults err) ''isOperational'' = Some (OwnEnumerable, JBool True)"
    using assms(3) by (simp add: map_of_with_defaults)
  then show "obj_get (obj_set (spread (with_defaults err)) ''message'' v) ''isOperational'' = JBool True"
    by (simp add: obj_get_obj_set_other obj_get_spread)
  show "obj_get (obj_set (spread (with_defaults err)) ''message'' v) ''message'' = v"
    by (rule obj_get_obj_set_same)
qed

text \<open>
  Claim C7. An error that carries a status code (a non-zero number) and
  \<open>isOperational = true\<close> as ordinary fields, a string message, none of the four
  names and not the code 11000 passes through unchanged, in either mode: the response
  has its status code, its message, and the symbolic code derived from the two.
\<close>

theorem C7_operational_passthrough:
  assumes "map_of err ''statusCode'' = Some (OwnEnumerable, JNum n)" and "n \<noteq> 0"
    and "map_of err ''isOperational'' = Some (OwnEnumerable, JBool True)"
    and "obj_get err ''message'' = JStr m"
    and "obj_get err ''name'' \<notin> {JStr ''CastError'', JStr ''ValidationError'',
                                   JStr ''JsonWebTokenError'', JStr ''TokenExpiredError''}"
    and "obj_get err ''code'' \<noteq> JNum 11000"
  shows "\<exists>r c. globalErrorHandler e (JObj err) = Inr r \<and> status r = JNum n
               \<and> message (body r) = JStr m
               \<and> getErrorCode (JNum n) (JStr m) = Inr c \<and> code (error (body r)) = c"
proof -
  let ?copy = "obj_set (spread (with_defaults err)) ''message'' (JStr m)"
  have cl: "classified e err = Inr ?copy"
    using assms(4,5,6) by (simp add: classified_unfold)
  obtain c where c: "getErrorCode (JNum n) (JStr m) = Inr c"
    using getErrorCode_total by blast
  note flds = passthrough_copy [OF assms(1,2,3), of "JStr m"]
  show ?thesis
  proof (cases "NODE_ENV e = Some ''development''")
    case True
    then show ?thesis
      using cl c flds unfolding globalErrorHandler_def sendErrorDev_def by simp
  next
    case False
    then show ?thesis
      using cl c flds unfolding globalErrorHandler_def sendErrorProd_def by simp
  qed
qed

text \<open>
  Claim C7 at \<open>new NotFoundError("Product")\<close> in production.
\<close>

theorem C7_operational_passthrough_witness:
  "map_of (NotFoundError production (Some ''Product'')) ''statusCode''
     = Some (OwnEnumerable, JNum 404)
   \<and> map_of (NotFoundError production (Some ''Product'')) ''isOperational''
     = Some (OwnEnumerable, JBool True)
   \<and> obj_get (NotFoundError production (Some ''Product'')) ''name'' = JStr ''Error''
   \<and> obj_get (NotFoundError production (Some ''Product'')) ''code'' = JUndefined
   \<and> (\<exists>r. globalErrorHandler production (JObj (NotFoundError production (Some ''Product'')))
              = Inr r
            \<and> status r = JNum 404 \<and> message (body r) = JStr ''Product not found''
            \<and> code (error (body r)) = ''RESOURCE_NOT_FOUND'')"
proof -
  let ?err = "NotFoundError production (Some ''Product'')"
  have h1: "map_of ?err ''statusCode'' = Some (OwnEnumerable, JNum 404)"
    and h3: "map_of ?err ''isOperational'' = Some (OwnEnumerable, JBool True)"
    and h4: "obj_get ?err ''message'' = JStr ''Product not found''"
    and h5: "obj_get ?err ''name'' \<notin> {JStr ''CastError'', JStr ''ValidationError'',
                                       JStr ''JsonWebTokenError'', JStr ''TokenExpiredError''}"
    and h6: "obj_get ?err ''code'' \<noteq> JNum 11000"
    and h7: "obj_get ?err ''name'' = JStr ''Error''"
    and h8: "obj_get ?err ''code'' = JUndefined"
    by (simp_all add: NotFoundError_def AppError_def obj_get_def)
  have h2: "(404::int) \<noteq> 0" by simp
  have gc: "getErrorCode (JNum 404) (JStr ''Product not found'') = Inr ''RESOURCE_NOT_FOUND''"
    by (simp add: getErrorCode_def startsWith_def)
  from C7_operational_passthrough [OF h1 h2 h3 h4 h5 h6, of production] gc
  have "\<exists>r. globalErrorHandler production (JObj ?err) = Inr r
            \<and> status r = JNum 404 \<and> message (body r) = JStr ''Product not found''
            \<and> code (error (body r)) = ''RESOURCE_NOT_FOUND''"
    by auto
  with h1 h3 h7 h8 show ?thesis by simp
qed

section \<open>The API not-found responder\<close>

lemma apiRoutes_nonempty: "map_of apiRoutes r = Some routes \<Longrightarrow> routes \<noteq> []"
  unfolding apiRoutes_def by (auto split: if_splits)

lemma suggestions_for_nonempty:
  "suggestions_for resource = Inr suggestions \<Longrightarrow> suggestions \<noteq> []"
  unfolding suggestions_for_def apiRoutes_get_def
  by (auto simp: commonSuggestions_def
           split: option.splits route_entry.splits if_splits dest: apiRoutes_nonempty)

lemma suggestions_for_throws:
  "suggestions_for resource = Inl ex \<longleftrightarrow>
     (\<exists>r. resource = Some r \<and> map_of apiRoutes r = None \<and> r \<in> set object_prototype_keys)"
  unfolding suggestions_for_def apiRoutes_get_def
  by (cases ex) (auto split: option.splits route_entry.splits if_splits)

lemma notFoundMessage_names_request:
  "\<exists>pre post. notFoundMessage req suggestions
       = pre @ (req_method req @ '' '' @ originalUrl req) @ post"
proof -
  have "notFoundMessage req suggestions =
          (''API endpoint '' @ [CHR 0x27]) @ (req_method req @ '' '' @ originalUrl req)
          @ drop (length (''API endpoint '' @ [CHR 0x27] @ req_method req @ '' '' @ originalUrl req))
              (notFoundMessage req suggestions)"
    unfolding notFoundMessage_def by simp
  then show ?thesis by blast
qed

lemma notFoundMessage_has_suggestion:
  assumes "suggestions \<noteq> []"
  shows "\<exists>pre post. notFoundMessage req suggestions = pre @ hd suggestions @ post"
proof -
  obtain x xs where sx: "suggestions = x # xs"
    using assms by (cases suggestions) auto
  let ?a = "''API endpoint '' @ [CHR 0x27] @ req_method req @ '' '' @ originalUrl req @ [CHR 0x27]
       @ '' not found.'' @ ''\<newline>\<newline>Did you mean one of these:'' @ ''\<newline>  '' @ bullet @ '' ''"
  let ?b = "concat (map (\<lambda>suggestion. ''\<newline>  '' @ bullet @ '' '' @ suggestion) (take 4 xs))
     @ ''\<newline>\<newline>For complete API documentation, visit: '' @ protocol req @ ''://''
     @ (case host req of None \<Rightarrow> ''undefined'' | Some h \<Rightarrow> h) @ ''/docs''
     @ ''\<newline>\<newline>Troubleshooting tips:''
     @ concat (map (\<lambda>tip. ''\<newline>  '' @ bullet @ '' '' @ tip) tips)"
  have "take 5 (x # xs) = x # take 4 xs"
    by (simp add: take_Cons')
  then have "notFoundMessage req suggestions = ?a @ x @ ?b"
    unfolding notFoundMessage_def sx by simp
  moreover have "hd suggestions = x" using sx by simp
  ultimately have "notFoundMessage req suggestions = ?a @ hd suggestions @ ?b"
    by (simp only:)
  then show ?thesis by (intro exI)
qed

text \<open>
  Whenever the responder returns for a request under \<open>/api/\<close>, it forwards a 404
  error whose message names the method and the path and contains the first suggestion.
\<close>

lemma apiNotFoundHandler_returns:
  assumes "startsWith (originalUrl req) ''/api/''" and "apiNotFoundHandler e req = Inr r"
  shows "\<exists>suggestions. suggestions \<noteq> []
           \<and> r = NextError (AppError e (notFoundMessage req suggestions) (Some 404))
           \<and> obj_get (AppError e (notFoundMessage req suggestions) (Some 404)) ''statusCode''
               = JNum 404
           \<and> includes_str (notFoundMessage req suggestions)
               (req_method req @ '' '' @ originalUrl req)
           \<and> includes_str (notFoundMessage req suggestions) (hd suggestions)"
proof -
  from assms obtain resource suggestions
    where s: "suggestions_for resource = Inr suggestions"
      and r: "r = NextError (AppError e (notFoundMessage req suggestions) (Some 404))"
    unfolding apiNotFoundHandler_def by (auto simp: Let_def split: sum.splits)
  have ne: "suggestions \<noteq> []" using s by (rule suggestions_for_nonempty)
  show ?thesis
    using r ne notFoundMessage_names_request [of req suggestions]
      notFoundMessage_has_suggestion [OF ne, of req]
    by (auto simp: includes_str_iff AppError_fields)
qed

lemma lower_char_not_upper: "lower_char c \<notin> set upper_case"
  unfolding lower_char_def upper_case_def lower_case_def by (auto split: if_splits)

lemma split_str_chars: "w \<in> set (split_str s sep) \<Longrightarrow> set w \<subseteq> set s"
proof (induction s arbitrary: w)
  case Nil
  then show ?case by simp
next
  case (Cons c cs)
  show ?case
  proof (cases "c = sep")
    case True
    with Cons.prems have "w = [] \<or> w \<in> set (split_str cs sep)" by auto
    then show ?thesis using Cons.IH by auto
  next
    case False
    show ?thesis
    proof (cases "split_str cs sep")
      case Nil
      with Cons.prems False show ?thesis by auto
    next
      case (Cons v vs)
      with Cons.prems False have "w = c # v \<or> w \<in> set vs" by auto
      moreover have "set v \<subseteq> set cs" using Cons Cons.IH by simp
      moreover have "w \<in> set vs \<Longrightarrow> set w \<subseteq> set cs" using Cons Cons.IH by simp
      ultimately show ?thesis by auto
    qed
  qed
qed

lemma resource_of_lower:
  assumes "resource_of url = Some r"
  shows "set r \<inter> set upper_case = {}"
proof -
  let ?segs = "filter (\<lambda>s. s \<noteq> []) (split_str (toLowerCase url) (CHR ''/''))"
  from assms have "1 < length ?segs" and "r = ?segs ! 1"
    unfolding resource_of_def by (auto simp: Let_def split: if_splits)
  then have "r \<in> set ?segs" by (metis nth_mem)
  then have "r \<in> set (split_str (toLowerCase url) (CHR ''/''))" by simp
  then have "set r \<subseteq> set (toLowerCase url)" by (rule split_str_chars)
  moreover have "set (toLowerCase url) \<inter> set upper_case = {}"
    unfolding toLowerCase_def using lower_char_not_upper by auto
  ultimately show ?thesis by blast
qed

lemma prototype_key_lower:
  assumes "r \<in> set object_prototype_keys"
    and "set r \<inter> set upper_case = {}"
  shows "r = ''constructor'' \<or> r = ''__proto__''"
proof -
  have no: "c \<notin> set r" if "c \<in> set upper_case" for c
    using assms(2) that by blast
  have g: "CHR ''G'' \<notin> set r" by (rule no) (simp add: upper_case_def)
  have s: "CHR ''S'' \<notin> set r" by (rule no) (simp add: upper_case_def)
  have o: "CHR ''O'' \<notin> set r" by (rule no) (simp add: upper_case_def)
  have p: "CHR ''P'' \<notin> set r" by (rule no) (simp add: upper_case_def)
  have i: "CHR ''I'' \<notin> set r" by (rule no) (simp add: upper_case_def)
  have l: "CHR ''L'' \<notin> set r" by (rule no) (simp add: upper_case_def)
  from assms(1) have "r = ''constructor'' \<or> r = ''__defineGetter__''
      \<or> r = ''__defineSetter__'' \<or> r = ''hasOwnProperty'' \<or> r = ''__lookupGetter__''
      \<or> r = ''__lookupSetter__'' \<or> r = ''isPrototypeOf'' \<or> r = ''propertyIsEnumerable''
      \<or> r = ''toString'' \<or> r = ''valueOf'' \<or> r = ''__proto__'' \<or> r = ''toLocaleString''"
    unfolding object_prototype_keys_def by simp
  then show ?thesis
    using g s o p i l by (elim disjE) simp_all
qed

lemma apiNotFoundHandler_resource:
  "apiNotFoundHandler e req =
     (if \<not> startsWith (originalUrl req) ''/api/'' then Inr Next
      else case suggestions_for (resource_of (originalUrl req)) of
             Inl ex \<Rightarrow> Inl ex
           | Inr suggestions \<Rightarrow>
               Inr (NextError (AppError e (notFoundMessage req suggestions) (Some 404))))"
  unfolding apiNotFoundHandler_def resource_of_def by (simp add: Let_def)

text \<open>
  The segments are lower-cased, so of the inherited members only \<open>constructor\<close> and
  \<open>__proto__\<close> can be hit. These are exactly the requests on which the responder
  throws.
\<close>

lemma apiNotFoundHandler_throws_iff:
  "apiNotFoundHandler e req = Inl ex \<longleftrightarrow>
     startsWith (originalUrl req) ''/api/''
     \<and> resource_of (originalUrl req) \<in> {Some ''constructor'', Some ''__proto__''}"
proof
  assume "apiNotFoundHandler e req = Inl ex"
  then have sw: "startsWith (originalUrl req) ''/api/''"
    and "suggestions_for (resource_of (originalUrl req)) = Inl ex"
    unfolding apiNotFoundHandler_resource by (auto split: if_splits sum.splits)
  then obtain r where r: "resource_of (originalUrl req) = Some r"
    and "r \<in> set object_prototype_keys"
    unfolding suggestions_for_throws by blast
  then have "r = ''constructor'' \<or> r = ''__proto__''"
    using resource_of_lower prototype_key_lower by blast
  with sw r show "startsWith (originalUrl req) ''/api/''
     \<and> resource_of (originalUrl req) \<in> {Some ''constructor'', Some ''__proto__''}"
    by auto
next
  assume a: "startsWith (originalUrl req) ''/api/''
     \<and> resource_of (originalUrl req) \<in> {Some ''constructor'', Some ''__proto__''}"
  then have "suggestions_for (resource_of (originalUrl req)) = Inl TypeError"
    by (auto simp: suggestions_for_def apiRoutes_get_def apiRoutes_def object_prototype_keys_def)
  with a show "apiNotFoundHandler e req = Inl ex"
    unfolding apiNotFoundHandler_resource by (cases ex) simp
qed

text \<open>
  For every other request under \<open>/api/\<close> the responder forwards a 404 error whose
  message names the method and the path and contains a suggested endpoint.
\<close>

lemma apiNotFoundHandler_suggests:
  assumes "startsWith (originalUrl req) ''/api/''"
    and "resource_of (originalUrl req) \<notin> {Some ''constructor'', Some ''__proto__''}"
  shows "\<exists>suggestions. suggestions \<noteq> []
           \<and> apiNotFoundHandler e req
               = Inr (NextError (AppError e (notFoundMessage req suggestions) (Some 404)))
           \<and> includes_str (notFoundMessage req suggestions)
               (req_method req @ '' '' @ originalUrl req)
           \<and> includes_str (notFoundMessage req suggestions) (hd suggestions)"
proof (cases "apiNotFoundHandler e req")
  case (Inl ex)
  then show ?thesis
    using assms(2) apiNotFoundHandler_throws_iff by blast
next
  case (Inr r)
  then show ?thesis
    using apiNotFoundHandler_returns [OF assms(1) Inr] by auto
qed

text \<open>
  Claim C8 says that every unmatched request under \<open>/api/\<close> gets a 404 error with at
  least one suggestion. For \<open>GET /api/constructor\<close> the lookup in the directory finds
  the inherited \<open>constructor\<close>, and spreading it throws: no 404 error is produced.
\<close>

theorem C8_inherited_member_throws:
  "startsWith (originalUrl api_constructor_request) ''/api/''
   \<and> apiNotFoundHandler production api_constructor_request = Inl TypeError"
  by (simp add: apiNotFoundHandler_def api_constructor_request_def startsWith_def
        toLowerCase_def lower_char_def upper_case_def lower_case_def suggestions_for_def apiRoutes_get_def apiRoutes_def
        object_prototype_keys_def Let_def)

section \<open>Termination signals\<close>

lemma step_exited: "exits p \<noteq> [] \<Longrightarrow> step p ev = p"
  by (simp add: step_def)

lemma exits_step:
  "exits p = [] \<Longrightarrow> exits (step p ev) = [] \<or> exits (step p ev) = [0]"
  unfolding step_def gracefulShutdown_def closeCallback_def dbSigintHandler_def
    dbSigintContinuation_def process_exit_def console_log_def
  by (auto simp: Let_def split: event.splits signal.splits)

lemma exits_run:
  "exits p = [] \<or> exits p = [0] \<Longrightarrow> exits (run p evs) = [] \<or> exits (run p evs) = [0]"
proof (induction evs arbitrary: p)
  case Nil
  then show ?case by (simp add: run_def)
next
  case (Cons ev evs)
  have "exits (step p ev) = [] \<or> exits (step p ev) = [0]"
  proof (cases "exits p = []")
    case True
    then show ?thesis by (rule exits_step)
  next
    case False
    then show ?thesis using Cons.prems by (simp add: step_exited)
  qed
  then have "exits (run (step p ev) evs) = [] \<or> exits (run (step p ev) evs) = [0]"
    by (rule Cons.IH)
  then show ?case by (simp add: run_def)
qed

lemma signal_with_server:
  assumes "exits p = []" and "server p"
  shows "exits (step p (Signal s)) = []" and "server (step p (Signal s))"
    and "closeCalls (step p (Signal s)) = closeCalls p + 1"
    and "closeCallbacks (step p (Signal s)) = closeCallbacks p + 1"
  using assms
  unfolding step_def gracefulShutdown_def dbSigintHandler_def console_log_def
  by (cases s; simp add: Let_def)+

text \<open>
  Claim C9 says that a second termination signal does not invoke the close logic again.
  After two \<open>SIGTERM\<close> signals \<open>server.close\<close> has been invoked twice and the
  shutdown has been announced twice.
\<close>

theorem C9_counterexample:
  "closeCalls (run running [Signal SIGTERM, Signal SIGTERM]) = 2
   \<and> \<not> closeCalls (run running [Signal SIGTERM, Signal SIGTERM]) \<le> 1
   \<and> console (run running [Signal SIGTERM, Signal SIGTERM])
       = [Received SIGTERM, Received SIGTERM]"
  by (simp add: run_def step_def running_def gracefulShutdown_def console_log_def Let_def)

text \<open>
  Claim C9, as the code has it. The process exits at most once, whatever events arrive.
  While the server is listening, each of two termination signals invokes
  \<open>server.close\<close> (two invocations), none of them exits, and the close event of the
  server then leads to exactly one exit, with code 0.
\<close>

theorem C9_signals_reenter_shutdown:
  assumes "exits p = []"
  shows "length (exits (run p evs)) \<le> 1
       \<and> (server p \<longrightarrow>
            closeCalls (run p [Signal s1, Signal s2]) = closeCalls p + 2
          \<and> exits (run p [Signal s1, Signal s2]) = []
          \<and> exits (run p [Signal s1, Signal s2, ServerClosed]) = [0])"
proof -
  have "exits (run p evs) = [] \<or> exits (run p evs) = [0]"
    using assms by (simp add: exits_run)
  then have a: "length (exits (run p evs)) \<le> 1" by auto
  have b: "closeCalls (run p [Signal s1, Signal s2]) = closeCalls p + 2
          \<and> exits (run p [Signal s1, Signal s2]) = []
          \<and> exits (run p [Signal s1, Signal s2, ServerClosed]) = [0]" if srv: "server p"
  proof -
    let ?p1 = "step p (Signal s1)"
    let ?p2 = "step ?p1 (Signal s2)"
    note one = signal_with_server [OF assms srv, of s1]
    note two = signal_with_server [OF one(1) one(2), of s2]
    have "exits (step ?p2 ServerClosed) = [0]"
      using two(1) two(4)
      by (simp add: step_def closeCallback_def process_exit_def console_log_def)
    then show ?thesis
      using one two by (simp add: run_def)
  qed
  from a b show ?thesis by blast
qed

text \<open>
  Claim C9 as amended, at the running process with \<open>SIGINT\<close> followed by
  \<open>SIGTERM\<close>.
\<close>

theorem C9_signals_reenter_shutdown_witness:
  "exits running = [] \<and> server running
   \<and> length (exits (run running [Signal SIGINT, Signal SIGTERM, ServerClosed, DbClosed])) \<le> 1
   \<and> closeCalls (run running [Signal SIGINT, Signal SIGTERM]) = 2
   \<and> exits (run running [Signal SIGINT, Signal SIGTERM, ServerClosed]) = [0]"
proof -
  have h1: "exits running = []" and h2: "server running" and h3: "closeCalls running = 0"
    by (simp_all add: running_def)
  from C9_signals_reenter_shutdown [OF h1,
      of "[Signal SIGINT, Signal SIGTERM, ServerClosed, DbClosed]" SIGINT SIGTERM] h1 h2 h3
  show ?thesis by simp
qed

section \<open>The error hierarchy\<close>

lemma sendErrorProd_AppError:
  "\<exists>c. getErrorCode (JNum (case s of None \<Rightarrow> 500 | Some n \<Rightarrow> n)) (JStr m) = Inr c \<and>
        sendErrorProd e (AppError e' m s) =
          Inr \<lparr>status = JNum (case s of None \<Rightarrow> 500 | Some n \<Rightarrow> n),
               body = \<lparr>success = False, message = JStr m,
                        error = \<lparr>code = c, timestamp = now e, name = None\<rparr>,
                        stack = None\<rparr>\<rparr>"
proof -
  obtain c where c: "getErrorCode (JNum (case s of None \<Rightarrow> 500 | Some n \<Rightarrow> n)) (JStr m) = Inr c"
    using getErrorCode_total by blast
  have "obj_get (AppError e' m s) ''statusCode'' = JNum (case s of None \<Rightarrow> 500 | Some n \<Rightarrow> n)"
    by (cases s) (simp_all add: AppError_fields)
  then show ?thesis
    using c unfolding sendErrorProd_def by (simp add: AppError_fields)
qed

lemma handleCastError_shape:
  "handleCastError e err = Inr x \<Longrightarrow> \<exists>m. x = AppError e m (Some 400)"
  unfolding handleCastError_def by (auto split: sum.splits)

lemma handleValidationError_shape:
  "handleValidationError e err = Inr x \<Longrightarrow> \<exists>m. x = AppError e m (Some 400)"
  unfolding handleValidationError_def by (auto split: sum.splits)

lemma handleDuplicateKeyError_shape:
  "handleDuplicateKeyError e err = Inr x \<Longrightarrow> \<exists>m. x = AppError e m (Some 400)"
  unfolding handleDuplicateKeyError_def by (auto simp: Let_def split: sum.splits)

lemma classified_shape:
  assumes "classified e err = Inr x"
    and "obj_get err ''name'' \<in> {JStr ''CastError'', JStr ''ValidationError'',
                                 JStr ''JsonWebTokenError'', JStr ''TokenExpiredError''}
         \<or> obj_get err ''code'' = JNum 11000"
  shows "\<exists>m c. x = AppError e m (Some c)"
  using assms
  unfolding classified_unfold handleJWTError_def handleJWTExpiredError_def
  by (auto split: if_splits sum.splits)
     (blast dest: handleCastError_shape handleValidationError_shape
        handleDuplicateKeyError_shape)+

text \<open>
  Claim C10. Every error built by \<open>AppError\<close> or one of its six subclasses has
  \<open>isOperational = true\<close>, also \<open>InternalServerError\<close> with its status 500. Every
  error the classifier produces for a recognised shape is an \<open>AppError\<close>. In
  production the formatter sends the message of an \<open>AppError\<close> as it is. An error
  that is not operational is no \<open>AppError\<close>.
\<close>

theorem C10_hierarchy_is_operational:
  "map_of (AppError e m s) ''isOperational'' = Some (OwnEnumerable, JBool True)
   \<and> map_of (AuthenticationError e a) ''isOperational'' = Some (OwnEnumerable, JBool True)
   \<and> map_of (AuthorizationError e a) ''isOperational'' = Some (OwnEnumerable, JBool True)
   \<and> map_of (NotFoundError e a) ''isOperational'' = Some (OwnEnumerable, JBool True)
   \<and> map_of (ConflictError e a) ''isOperational'' = Some (OwnEnumerable, JBool True)
   \<and> map_of (BadRequestError e a) ''isOperational'' = Some (OwnEnumerable, JBool True)
   \<and> map_of (InternalServerError e a) ''isOperational'' = Some (OwnEnumerable, JBool True)
   \<and> obj_get (InternalServerError e a) ''statusCode'' = JNum 500
   \<and> (classified e err = Inr x
        \<and> (obj_get err ''name'' \<in> {JStr ''CastError'', JStr ''ValidationError'',
                                    JStr ''JsonWebTokenError'', JStr ''TokenExpiredError''}
             \<or> obj_get err ''code'' = JNum 11000)
        \<longrightarrow> (\<exists>msg c. x = AppError e msg (Some c)))
   \<and> (\<exists>c. sendErrorProd e (AppError e' m s) =
              Inr \<lparr>status = JNum (case s of None \<Rightarrow> 500 | Some n \<Rightarrow> n),
                   body = \<lparr>success = False, message = JStr m,
                            error = \<lparr>code = c, timestamp = now e, name = None\<rparr>,
                            stack = None\<rparr>\<rparr>)
   \<and> (\<not> js_truthy (obj_get y ''isOperational'') \<longrightarrow> y \<noteq> AppError e m s)"
proof -
  have ops: "map_of (AppError e m' s') ''isOperational'' = Some (OwnEnumerable, JBool True)"
    for m' s' by (simp add: AppError_def)
  have "\<not> js_truthy (obj_get y ''isOperational'') \<longrightarrow> y \<noteq> AppError e m s"
    by (auto simp: AppError_fields)
  moreover have "\<exists>c. sendErrorProd e (AppError e' m s) =
              Inr \<lparr>status = JNum (case s of None \<Rightarrow> 500 | Some n \<Rightarrow> n),
                   body = \<lparr>success = False, message = JStr m,
                            error = \<lparr>code = c, timestamp = now e, name = None\<rparr>,
                            stack = None\<rparr>\<rparr>"
    using sendErrorProd_AppError [of s m e e'] by blast
  moreover have "classified e err = Inr x
        \<and> (obj_get err ''name'' \<in> {JStr ''CastError'', JStr ''ValidationError'',
                                    JStr ''JsonWebTokenError'', JStr ''TokenExpiredError''}
             \<or> obj_get err ''code'' = JNum 11000)
        \<longrightarrow> (\<exists>msg c. x = AppError e msg (Some c))"
    using classified_shape by blast
  moreover have "obj_get (InternalServerError e a) ''statusCode'' = JNum 500"
    by (simp add: InternalServerError_def AppError_fields)
  ultimately show ?thesis
    unfolding AuthenticationError_def AuthorizationError_def NotFoundError_def
      ConflictError_def BadRequestError_def InternalServerError_def
    using ops by simp
qed

text \<open>
  Claim C10 at a classified duplicate-key failure and at \<open>new Error("boom")\<close>, which is
  not operational and not an \<open>AppError\<close>.
\<close>

theorem C10_hierarchy_is_operational_witness:
  "classified production cast_and_duplicate =
     Inr (AppError production
            ''email 'a@b.com' already exists. Please use another value.'' (Some 400))
   \<and> obj_get cast_and_duplicate ''name'' = JStr ''CastError''
   \<and> \<not> js_truthy (obj_get plain_error ''isOperational'')
   \<and> plain_error \<noteq> AppError production ''boom'' None
   \<and> map_of (InternalServerError production None) ''isOperational''
        = Some (OwnEnumerable, JBool True)"
proof -
  have h1: "classified production cast_and_duplicate =
     Inr (AppError production
            ''email 'a@b.com' already exists. Please use another value.'' (Some 400))"
    by (simp add: classified_unfold cast_and_duplicate_def obj_get_def
          handleCastError_def handleDuplicateKeyError_def spread_def Let_def)
  have h2: "obj_get cast_and_duplicate ''name'' = JStr ''CastError''"
    by (simp add: cast_and_duplicate_def obj_get_def)
  have h3: "\<not> js_truthy (obj_get plain_error ''isOperational'')"
    by (simp add: plain_error_def obj_get_def)
  from C10_hierarchy_is_operational [of production "''boom''" None None cast_and_duplicate
      "AppError production ''email 'a@b.com' already exists. Please use another value.'' (Some 400)"
      production plain_error] h1 h2 h3
  show ?thesis by simp
qed

end
